theory Spec2Isabelle
  imports Complex_Main
begin

section \<open>JavaScript values used by the recommendation engine\<close>

text \<open>
  A JavaScript string is a sequence of UTF-16 code units, and the regular expressions of
  \<open>parseSpec\<close> and \<open>parseFeatures\<close> (none has the \<open>u\<close> flag) work on code units.
  All text of the source outside ASCII lies in the Basic Multilingual Plane, one code unit
  each; such text is written here as the list of its code units.
\<close>

type_synonym jschar = nat
type_synonym jsstring = "jschar list"

definition u :: "string \<Rightarrow> jsstring" where
  "u s = map of_char s"

text \<open>
  Numbers. The engine reads integers (prices, gigabytes, a budget) and meets \<open>NaN\<close> where
  \<open>Number\<close> is given text that is no numeral. Every comparison with \<open>NaN\<close> is false and
  \<open>NaN\<close> is falsy. Fractions and the infinities are left out of this type.
\<close>

datatype jsnum = NaN | Num int

fun js_lt :: "jsnum \<Rightarrow> jsnum \<Rightarrow> bool" where
  "js_lt (Num a) (Num b) = (a < b)"
| "js_lt _ _ = False"

fun js_ge :: "jsnum \<Rightarrow> jsnum \<Rightarrow> bool" where
  "js_ge (Num a) (Num b) = (a \<ge> b)"
| "js_ge _ _ = False"

fun js_le :: "jsnum \<Rightarrow> jsnum \<Rightarrow> bool" where
  "js_le (Num a) (Num b) = (a \<le> b)"
| "js_le _ _ = False"

fun js_mul :: "jsnum \<Rightarrow> int \<Rightarrow> jsnum" where
  "js_mul (Num a) k = Num (a * k)"
| "js_mul NaN k = NaN"

text \<open>\<open>x || d\<close> for a number \<open>x\<close>: zero and \<open>NaN\<close> are falsy.\<close>

fun num_or :: "jsnum \<Rightarrow> int \<Rightarrow> int" where
  "num_or (Num n) d = (if n = 0 then d else n)"
| "num_or NaN d = d"

text \<open>\<open>x ?? 0\<close> for a number that may be \<open>null\<close>.\<close>

fun nullish0 :: "jsnum option \<Rightarrow> jsnum" where
  "nullish0 None = Num 0"
| "nullish0 (Some x) = x"

text \<open>\<open>a || b\<close> for strings: the empty string is falsy.\<close>

definition str_or :: "jsstring \<Rightarrow> jsstring \<Rightarrow> jsstring" where
  "str_or a b = (if a \<noteq> [] then a else b)"

definition is_digit :: "jschar \<Rightarrow> bool" where
  "is_digit c = (48 \<le> c \<and> c \<le> 57)"

text \<open>The class \<open>\s\<close>: the white space and line terminators of ECMAScript.\<close>

definition is_space :: "jschar \<Rightarrow> bool" where
  "is_space c = (c \<in> {9, 10, 11, 12, 13, 32, 160, 5760, 8232, 8233, 8239, 8287, 12288, 65279}
     \<or> (8192 \<le> c \<and> c \<le> 8202))"

definition digits_value :: "jsstring \<Rightarrow> int" where
  "digits_value s = foldl (\<lambda>a c. 10 * a + (int c - 48)) 0 s"

text \<open>
  \<open>Number(s)\<close> on the strings the engine hands to it, which are captures of its regular
  expressions: a run of ASCII digits is its decimal value, the empty string is 0, and a
  keyword such as \<open>RAM\<close> is \<open>NaN\<close>. (On signs, blanks, fractions, exponents and
  \<open>Infinity\<close> the real \<open>Number\<close> does more; no capture of the integer patterns has those.)
\<close>

definition js_Number :: "jsstring \<Rightarrow> jsnum" where
  "js_Number s = (if list_all is_digit s then Num (digits_value s) else NaN)"

text \<open>\<open>Number\<close> of a capture that may be \<open>undefined\<close>.\<close>

fun js_Number_opt :: "jsstring option \<Rightarrow> jsnum" where
  "js_Number_opt None = NaN"
| "js_Number_opt (Some s) = js_Number s"

text \<open>
  \<open>Number\<close> of a capture of \<open>\d{1,2}\.?\d?\<close> (the screen size): digits, then
  possibly a dot, then possibly digits.
\<close>

definition js_Number_decimal :: "jsstring \<Rightarrow> real" where
  "js_Number_decimal s =
     (let ip = takeWhile is_digit s; rest = dropWhile is_digit s
      in real_of_int (digits_value ip)
         + (case rest of [] \<Rightarrow> 0
            | d # fs \<Rightarrow> real_of_int (digits_value fs) / 10 ^ length fs))"

section \<open>Regular expressions with backtracking\<close>

text \<open>
  The patterns of the source are built from literals, character classes under a greedy
  bounded quantifier, sequence, alternation and capture groups. All but one carry the
  \<open>i\<close> flag, and the one without (the screen size) has no cased character, so literals
  are compared after canonicalisation. Without the \<open>u\<close> flag ECMAScript canonicalises
  by upper-casing a code unit, and never maps a code unit outside ASCII to one inside:
  for the ASCII letters and the kana of these patterns that is the map below.
\<close>

definition canon :: "jschar \<Rightarrow> jschar" where
  "canon c = (if 97 \<le> c \<and> c \<le> 122 then c - 32 else c)"

definition toUpperCase :: "jsstring \<Rightarrow> jsstring" where
  "toUpperCase s = map canon s"

datatype rx =
    Lit jsstring
  | Rep "jschar \<Rightarrow> bool" nat "nat option"
  | Seq rx rx
  | Alt rx rx
  | Grp nat rx

type_synonym caps = "nat \<rightharpoonup> jsstring"

text \<open>The rest of the input after a literal, if the input starts with it.\<close>

fun lit_rest :: "jsstring \<Rightarrow> jsstring \<Rightarrow> jsstring option" where
  "lit_rest [] s = Some s"
| "lit_rest (l # ls) [] = None"
| "lit_rest (l # ls) (c # cs) = (if canon l = canon c then lit_rest ls cs else None)"

text \<open>
  \<open>rep p mn mx s\<close>: the inputs left after \<open>p{mn,mx}\<close> (\<open>mx = None\<close>: no upper bound),
  in the order a backtracking matcher tries them: the greedy quantifier takes one more
  character first and gives it back last.
\<close>

fun rep :: "(jschar \<Rightarrow> bool) \<Rightarrow> nat \<Rightarrow> nat option \<Rightarrow> jsstring \<Rightarrow> jsstring list" where
  "rep p mn mx [] = (if mn = 0 then [[]] else [])"
| "rep p mn mx (c # cs) =
     (if mx \<noteq> Some 0 \<and> p c then rep p (mn - 1) (map_option (\<lambda>m. m - 1) mx) cs else [])
     @ (if mn = 0 then [c # cs] else [])"

text \<open>
  All ways to match a pattern at the start of the input, in the order of backtracking:
  each is the input left and the captures made.
\<close>

fun rx_match :: "rx \<Rightarrow> jsstring \<Rightarrow> caps \<Rightarrow> (jsstring \<times> caps) list" where
  "rx_match (Lit l) s c = (case lit_rest l s of None \<Rightarrow> [] | Some r \<Rightarrow> [(r, c)])"
| "rx_match (Rep p mn mx) s c = map (\<lambda>r. (r, c)) (rep p mn mx s)"
| "rx_match (Seq a b) s c = concat (map (\<lambda>x. rx_match b (fst x) (snd x)) (rx_match a s c))"
| "rx_match (Alt a b) s c = rx_match a s c @ rx_match b s c"
| "rx_match (Grp i a) s c =
     map (\<lambda>x. (fst x, (snd x)(i \<mapsto> take (length s - length (fst x)) s))) (rx_match a s c)"

text \<open>The indices of the capture groups of a pattern.\<close>

fun groups :: "rx \<Rightarrow> nat set" where
  "groups (Lit l) = {}"
| "groups (Rep p mn mx) = {}"
| "groups (Seq a b) = groups a \<union> groups b"
| "groups (Alt a b) = groups a \<union> groups b"
| "groups (Grp i a) = insert i (groups a)"

text \<open>
  A match at one position (a pattern anchored with \<open>^\<close>, tried on the whole string):
  the matched text, which is index 0 of the array \<open>match\<close> returns, and the captures.
\<close>

definition rx_exec :: "rx \<Rightarrow> jsstring \<Rightarrow> (jsstring \<times> caps) option" where
  "rx_exec r s =
     (case rx_match r s Map.empty of [] \<Rightarrow> None
      | x # _ \<Rightarrow> Some (take (length s - length (fst x)) s, snd x))"

text \<open>\<open>s.match(r)\<close> without the \<open>g\<close> flag: the match at the leftmost position that has one.\<close>

fun rx_search :: "rx \<Rightarrow> jsstring \<Rightarrow> (jsstring \<times> caps) option" where
  "rx_search r [] = rx_exec r []"
| "rx_search r (c # cs) =
     (case rx_exec r (c # cs) of Some m \<Rightarrow> Some m | None \<Rightarrow> rx_search r cs)"

definition rx_test :: "rx \<Rightarrow> jsstring \<Rightarrow> bool" where
  "rx_test r s = (rx_search r s \<noteq> None)"

text \<open>\<open>a || b\<close> on two results of \<open>match\<close>: an array is truthy, \<open>null\<close> is not.\<close>

fun match_or :: "'a option \<Rightarrow> 'a option \<Rightarrow> 'a option" where
  "match_or (Some m) b = Some m"
| "match_or None b = b"

text \<open>\<open>m[i] || m[j]\<close> on captures: \<open>undefined\<close> and the empty string are falsy.\<close>

fun cap_or :: "jsstring option \<Rightarrow> jsstring option \<Rightarrow> jsstring option" where
  "cap_or (Some (x # xs)) b = Some (x # xs)"
| "cap_or (Some []) b = b"
| "cap_or None b = b"

fun alts :: "jsstring list \<Rightarrow> rx" where
  "alts [] = Lit []"
| "alts [l] = Lit l"
| "alts (l # ls) = Alt (Lit l) (alts ls)"

definition one :: "(jschar \<Rightarrow> bool) \<Rightarrow> rx" where
  "one p = Rep p 1 (Some 1)"

definition star :: "(jschar \<Rightarrow> bool) \<Rightarrow> rx" where
  "star p = Rep p 0 None"

section \<open>Spec and feature extraction\<close>

text \<open>\<open>String(text).replace(/\s+/g, " ")\<close>: each run of white space becomes one space.
  The flag says that the character before was white space.\<close>

fun collapse :: "bool \<Rightarrow> jsstring \<Rightarrow> jsstring" where
  "collapse in_run [] = []"
| "collapse in_run (c # cs) =
     (if is_space c then (if in_run then collapse True cs else 32 # collapse True cs)
      else c # collapse False cs)"

text \<open>The keyword \<open>memori\<close> in katakana (U+30E1 U+30E2 U+30EA).\<close>

definition kw_memori :: jsstring where
  "kw_memori = [12513, 12514, 12522]"

text \<open>
  The class \<open>[^a-zA-Z...]\<close> of the reversed patterns: no ASCII letter, no hiragana
  (U+3041 to U+3093), no katakana (U+30A1 to U+30F3), no ideograph (U+4E00 to U+9FA5).
\<close>

definition is_letter :: "jschar \<Rightarrow> bool" where
  "is_letter c = ((97 \<le> c \<and> c \<le> 122) \<or> (65 \<le> c \<and> c \<le> 90)
     \<or> (12353 \<le> c \<and> c \<le> 12435) \<or> (12449 \<le> c \<and> c \<le> 12531)
     \<or> (19968 \<le> c \<and> c \<le> 40869))"

text \<open>\<open>[A-Z]\<close> under the \<open>i\<close> flag.\<close>

definition is_alpha :: "jschar \<Rightarrow> bool" where
  "is_alpha c = (65 \<le> canon c \<and> canon c \<le> 90)"

definition is_3579 :: "jschar \<Rightarrow> bool" where
  "is_3579 c = (c \<in> {51, 53, 55, 57})"

text \<open>\<open>/(memori|RAM|Memory)[^0-9]{0,10}(\d{1,3})\s*GB/i\<close>\<close>

definition memRe1 :: rx where
  "memRe1 =
     Seq (Grp 1 (alts [kw_memori, u ''RAM'', u ''Memory'']))
    (Seq (Rep (\<lambda>c. \<not> is_digit c) 0 (Some 10))
    (Seq (Grp 2 (Rep is_digit 1 (Some 3)))
    (Seq (star is_space) (Lit (u ''GB'')))))"

text \<open>\<open>/(\d{1,3})\s*GB[^a-zA-Z...]{0,10}(memori|RAM|Memory)/i\<close>\<close>

definition memRe2 :: rx where
  "memRe2 =
     Seq (Grp 1 (Rep is_digit 1 (Some 3)))
    (Seq (star is_space)
    (Seq (Lit (u ''GB''))
    (Seq (Rep (\<lambda>c. \<not> is_letter c) 0 (Some 10))
         (Grp 2 (alts [kw_memori, u ''RAM'', u ''Memory''])))))"

text \<open>\<open>/SSD[^0-9]{0,10}(\d{2,4})\s*(GB|TB)/i\<close>\<close>

definition ssdRe1 :: rx where
  "ssdRe1 =
     Seq (Lit (u ''SSD''))
    (Seq (Rep (\<lambda>c. \<not> is_digit c) 0 (Some 10))
    (Seq (Grp 1 (Rep is_digit 2 (Some 4)))
    (Seq (star is_space) (Grp 2 (alts [u ''GB'', u ''TB''])))))"

text \<open>\<open>/(\d{2,4})\s*(GB|TB)[^a-zA-Z...]{0,10}SSD/i\<close>\<close>

definition ssdRe2 :: rx where
  "ssdRe2 =
     Seq (Grp 1 (Rep is_digit 2 (Some 4)))
    (Seq (star is_space)
    (Seq (Grp 2 (alts [u ''GB'', u ''TB'']))
    (Seq (Rep (\<lambda>c. \<not> is_letter c) 0 (Some 10)) (Lit (u ''SSD'')))))"

definition gpuRe :: rx where
  "gpuRe = Grp 1 (alts [u ''RTX'', u ''GTX'', u ''Radeon'', u ''Arc'', u ''GeForce''])"

text \<open>\<open>/i[3579]-\d{4,5}[A-Z]{0,2}/i\<close>\<close>

definition intelRe :: rx where
  "intelRe =
     Seq (Lit (u ''i''))
    (Seq (one is_3579)
    (Seq (Lit (u ''-''))
    (Seq (Rep is_digit 4 (Some 5)) (Rep is_alpha 0 (Some 2)))))"

text \<open>\<open>/Ryzen\s*[3579]\s*\d{4,5}[A-Z]{0,2}/i\<close>\<close>

definition ryzenRe :: rx where
  "ryzenRe =
     Seq (Lit (u ''Ryzen''))
    (Seq (star is_space)
    (Seq (one is_3579)
    (Seq (star is_space)
    (Seq (Rep is_digit 4 (Some 5)) (Rep is_alpha 0 (Some 2))))))"

text \<open>\<open>/^i[3579]-/i\<close>, tried at the start of the string only.\<close>

definition intelPrefixRe :: rx where
  "intelPrefixRe = Seq (Lit (u ''i'')) (Seq (one is_3579) (Lit (u ''-'')))"

text \<open>\<open>/i[3579]-(\d{4,5})/i\<close>\<close>

definition intelNumRe :: rx where
  "intelNumRe =
     Seq (Lit (u ''i'')) (Seq (one is_3579) (Seq (Lit (u ''-'')) (Grp 1 (Rep is_digit 4 (Some 5)))))"

record spec =
  memGB :: "jsnum option"
  ssdGB :: "jsnum option"
  hasGPU :: bool
  hasHDD :: bool
  cpu :: "jsstring option"
  cpuGen :: "jsnum option"

definition parse_memGB :: "jsstring \<Rightarrow> jsnum option" where
  "parse_memGB t =
     (case match_or (rx_search memRe1 t) (rx_search memRe2 t) of
        None \<Rightarrow> None
      | Some m \<Rightarrow> Some (js_Number_opt (cap_or (snd m 2) (snd m 1))))"

definition parse_ssdGB :: "jsstring \<Rightarrow> jsnum option" where
  "parse_ssdGB t =
     (case match_or (rx_search ssdRe1 t) (rx_search ssdRe2 t) of
        None \<Rightarrow> None
      | Some m \<Rightarrow>
          (let n = js_Number_opt (snd m 1);
               unit = toUpperCase (case cap_or (snd m 2) (Some []) of Some s \<Rightarrow> s | None \<Rightarrow> [])
           in Some (if unit = u ''TB'' then js_mul n 1024 else n)))"

definition parse_cpu :: "jsstring \<Rightarrow> jsstring option" where
  "parse_cpu t =
     (case rx_search intelRe t of
        Some m \<Rightarrow> Some (fst m)
      | None \<Rightarrow> (case rx_search ryzenRe t of Some m \<Rightarrow> Some (fst m) | None \<Rightarrow> None))"

definition parse_cpuGen :: "jsstring option \<Rightarrow> jsnum option" where
  "parse_cpuGen c =
     (case c of
        None \<Rightarrow> None
      | Some cp \<Rightarrow>
          if rx_exec intelPrefixRe cp \<noteq> None then
            (case rx_search intelNumRe cp of
               None \<Rightarrow> None
             | Some m \<Rightarrow>
                 (case snd m 1 of
                    None \<Rightarrow> None
                  | Some num \<Rightarrow>
                      Some (if length num = 4 then js_Number (take 1 num)
                            else js_Number (take 2 num))))
          else None)"

definition parseSpec :: "jsstring \<Rightarrow> spec" where
  "parseSpec text =
     (let t = collapse False text;
          c = parse_cpu t
      in \<lparr> memGB = parse_memGB t,
           ssdGB = parse_ssdGB t,
           hasGPU = rx_test gpuRe t,
           hasHDD = (rx_test (Lit (u ''HDD'')) t \<and> \<not> rx_test (Lit (u ''SSD'')) t),
           cpu = c,
           cpuGen = parse_cpuGen c \<rparr>)"


text \<open>Keywords of \<open>parseFeatures\<close>, as code units (katakana and the prolonged sound mark).\<close>

definition kw_nooto :: jsstring where  \<comment> \<open>"note(book)", U+30CE U+30FC U+30C8\<close>
  "kw_nooto = [12494, 12540, 12488]"

definition kw_rettsunooto :: jsstring where  \<comment> \<open>"Let's note" in katakana\<close>
  "kw_rettsunooto = [12524, 12483, 12484, 12494, 12540, 12488]"

definition kw_desukutoppu :: jsstring where  \<comment> \<open>"desktop" in katakana\<close>
  "kw_desukutoppu = [12487, 12473, 12463, 12488, 12483, 12503]"

definition kw_tawaa :: jsstring where  \<comment> \<open>"tower" in katakana\<close>
  "kw_tawaa = [12479, 12527, 12540]"

definition kw_waakusuteeshon :: jsstring where  \<comment> \<open>"workstation" in katakana\<close>
  "kw_waakusuteeshon = [12527, 12540, 12463, 12473, 12486, 12540, 12471, 12519, 12531]"

definition kw_kamera :: jsstring where  \<comment> \<open>"camera" in katakana, U+30AB U+30E1 U+30E9\<close>
  "kw_kamera = [12459, 12513, 12521]"

definition kw_tenkii :: jsstring where  \<comment> \<open>"ten-key" in katakana\<close>
  "kw_tenkii = [12486, 12531, 12461, 12540]"

definition kw_inchi :: jsstring where  \<comment> \<open>"inch" in katakana, U+30A4 U+30F3 U+30C1\<close>
  "kw_inchi = [12452, 12531, 12481]"

definition laptopRe :: rx where
  "laptopRe = alts [kw_nooto, u ''Laptop'', u ''ThinkPad'', u ''LuvBook'', u ''Latitude'',
     u ''EliteBook'', u ''Let'' @ [39] @ u ''s note'', kw_rettsunooto]"

definition desktopRe :: rx where
  "desktopRe = alts [kw_desukutoppu, u ''Desktop'', u ''ProDesk'', u ''OptiPlex'', u ''SFF'',
     u ''DM'', u ''MT'', kw_tawaa, kw_waakusuteeshon]"

definition cameraRe :: rx where
  "cameraRe = alts [u ''WEB'' @ kw_kamera, u ''Web'' @ kw_kamera, kw_kamera]"

text \<open>\<open>/(\d{1,2}\.?\d?)\s*inchi/\<close>\<close>

definition inchRe :: rx where
  "inchRe =
     Seq (Grp 1 (Seq (Rep is_digit 1 (Some 2))
                (Seq (Rep (\<lambda>c. c = 46) 0 (Some 1)) (Rep is_digit 0 (Some 1)))))
    (Seq (star is_space) (Lit kw_inchi))"

record feat =
  deviceType :: jsstring
  hasCamera :: bool
  hasTenkey :: bool
  inch :: "real option"

definition parseFeatures :: "jsstring \<Rightarrow> feat" where
  "parseFeatures t =
     (let isLaptop = rx_test laptopRe t;
          isDesktop = rx_test desktopRe t
      in \<lparr> deviceType = (if isLaptop \<and> \<not> isDesktop then u ''laptop''
                          else if isDesktop \<and> \<not> isLaptop then u ''desktop'' else u ''any''),
           hasCamera = rx_test cameraRe t,
           hasTenkey = rx_test (Lit kw_tenkii) t,
           inch = (case rx_search inchRe t of
                     None \<Rightarrow> None
                   | Some m \<Rightarrow> (case snd m 1 of None \<Rightarrow> None
                                | Some s \<Rightarrow> Some (js_Number_decimal s))) \<rparr>)"

section \<open>The use-case profiles\<close>

record targets =
  laptop :: "int option"
  desktop :: "int option"
  any :: int

record minspec =
  mem :: int
  ssd :: int

text \<open>A key that the object literal does not have reads as \<open>undefined\<close>, which is falsy:
  it is \<open>False\<close> here, and a \<open>require\<close> or \<open>avoid\<close> that is absent is \<open>None\<close>.\<close>

record requirement =
  camera :: bool
  gpu :: bool

record avoidance =
  hddOnly :: bool
  memUnder :: int

record profile =
  label :: jsstring
  target :: targets
  minSpec :: "minspec option"
  require :: "requirement option"
  avoid :: "avoidance option"

definition office :: profile where
  "office = \<lparr> label = [20107, 21209, 12539, 26222, 27573, 20351, 12356],
     target = \<lparr> laptop = Some 22000, desktop = Some 20000, any = 20000 \<rparr>,
     minSpec = Some \<lparr> mem = 8, ssd = 256 \<rparr>,
     require = None,
     avoid = Some \<lparr> hddOnly = True, memUnder = 8 \<rparr> \<rparr>"

definition zoom :: profile where
  "zoom = \<lparr> label = u ''Zoom'' @ [12539, 12458, 12531, 12521, 12452, 12531, 20250, 35696],
     target = \<lparr> laptop = Some 25000, desktop = Some 22000, any = 23000 \<rparr>,
     minSpec = Some \<lparr> mem = 8, ssd = 256 \<rparr>,
     require = Some \<lparr> camera = True, gpu = False \<rparr>,
     avoid = Some \<lparr> hddOnly = True, memUnder = 8 \<rparr> \<rparr>"

definition creator :: profile where
  "creator = \<lparr> label = [21046, 20316, 12539, 32232, 38598, 65288, 36605, 12316, 20013, 65289],
     target = \<lparr> laptop = Some 45000, desktop = Some 40000, any = 42000 \<rparr>,
     minSpec = Some \<lparr> mem = 16, ssd = 512 \<rparr>,
     require = None,
     avoid = Some \<lparr> hddOnly = True, memUnder = 8 \<rparr> \<rparr>"

definition game :: profile where
  "game = \<lparr> label = [12466, 12540, 12512],
     target = \<lparr> laptop = Some 70000, desktop = Some 65000, any = 65000 \<rparr>,
     minSpec = Some \<lparr> mem = 16, ssd = 512 \<rparr>,
     require = Some \<lparr> camera = False, gpu = True \<rparr>,
     avoid = Some \<lparr> hddOnly = True, memUnder = 8 \<rparr> \<rparr>"

text \<open>The own properties of the object literal \<open>base\<close>.\<close>

definition base :: "jsstring \<rightharpoonup> profile" where
  "base k = (if k = u ''office'' then Some office
             else if k = u ''zoom'' then Some zoom
             else if k = u ''creator'' then Some creator
             else if k = u ''game'' then Some game
             else None)"

text \<open>
  \<open>base\<close> is an ordinary object, so \<open>base[useCase]\<close> also finds what \<open>Object.prototype\<close>
  holds under the key: functions, and under \<open>__proto__\<close> the prototype object itself.
  All of these are truthy, and none has a property \<open>target\<close>.
\<close>

definition object_prototype_keys :: "jsstring list" where
  "object_prototype_keys =
     [u ''constructor'', u ''hasOwnProperty'', u ''isPrototypeOf'', u ''propertyIsEnumerable'',
      u ''toLocaleString'', u ''toString'', u ''valueOf'', u ''__proto__'',
      u ''__defineGetter__'', u ''__defineSetter__'', u ''__lookupGetter__'',
      u ''__lookupSetter__'']"

datatype looked_up = Profile profile | Inherited jsstring

text \<open>\<open>base[useCase] || base.office\<close>\<close>

definition getProfile :: "jsstring \<Rightarrow> looked_up" where
  "getProfile useCase =
     (case base useCase of
        Some p \<Rightarrow> Profile p
      | None \<Rightarrow> if useCase \<in> set object_prototype_keys then Inherited useCase
                else Profile office)"

section \<open>The budget tiers\<close>

definition clamp :: "int \<Rightarrow> int \<Rightarrow> int \<Rightarrow> int" where
  "clamp n a b = max a (min b n)"

text \<open>
  \<open>Math.round(x)\<close> is the integer nearest to \<open>x\<close>, a half rounded up. The products
  \<open>target * 1.35\<close> and \<open>target * 1.8\<close> are taken exactly here. For an integer
  \<open>target \<ge> 0\<close> of the size of a price that changes nothing: the exact product is a
  multiple of \<open>1/20\<close>, the double product lies at or just above it, and so both round
  to the same integer. For a negative target (a negative ceiling) the double product may
  lie just below a half and \<open>Math.round\<close> may give one less; the properties below hold
  for whatever these two roundings return, as they only use the bounds of \<open>clamp\<close>.
\<close>

definition js_round :: "real \<Rightarrow> int" where
  "js_round x = \<lfloor>x + 1 / 2\<rfloor>"

record centers =
  c_target :: int
  enough :: int
  comfort :: int
  headroom :: int

definition baseTarget :: "profile \<Rightarrow> jsstring \<Rightarrow> int" where
  "baseTarget prof devicePref =
     (let key = (if devicePref = u ''laptop'' \<or> devicePref = u ''desktop'' then devicePref
                 else u ''any'');
          t = target prof
      in case (if key = u ''laptop'' then laptop t
               else if key = u ''desktop'' then desktop t else Some (any t)) of
           Some v \<Rightarrow> v
         | None \<Rightarrow> any t)"

definition computeTargetBudget :: "profile \<Rightarrow> jsnum \<Rightarrow> jsstring \<Rightarrow> centers" where
  "computeTargetBudget prof budgetMax devicePref =
     (let bt = baseTarget prof devicePref;
          tg = min (num_or budgetMax bt) bt;
          en = clamp tg 10000 (num_or budgetMax tg);
          co = clamp (js_round (real_of_int tg * 1.35)) en
                 (num_or budgetMax (js_round (real_of_int tg * 1.35)));
          he = clamp (js_round (real_of_int tg * 1.8)) co
                 (num_or budgetMax (js_round (real_of_int tg * 1.8)))
      in \<lparr> c_target = tg, enough = en, comfort = co, headroom = he \<rparr>)"


section \<open>Scoring\<close>

text \<open>
  A catalog row as \<open>readProductsFromMakeshopCsv\<close> builds it. Price and quantity are
  \<open>Number\<close> of a column of the file; they are integers here. (A column that is no
  numeral gives \<open>NaN\<close>, and such a row fails \<open>quantity > 0\<close> or \<open>price > 0\<close> and never
  reaches the selector.)
\<close>

record row =
  sku :: jsstring
  systemCode :: jsstring
  name :: jsstring
  description :: jsstring
  price :: int
  quantity :: int
  url :: jsstring

record req =
  device :: jsstring
  needsCamera :: bool
  needsTenkey :: bool
  screen :: "jsstring option"
  headroomCenter :: int

text \<open>\<open>profile.require?.camera\<close> and \<open>profile.require?.gpu\<close>\<close>

definition require_camera :: "profile \<Rightarrow> bool" where
  "require_camera prof = (case require prof of None \<Rightarrow> False | Some r \<Rightarrow> camera r)"

definition require_gpu :: "profile \<Rightarrow> bool" where
  "require_gpu prof = (case require prof of None \<Rightarrow> False | Some r \<Rightarrow> gpu r)"

text \<open>
  The score is a sum of real numbers; \<open>Math.log\<close> is the natural logarithm. The selector
  calls \<open>scoreProduct\<close> on rows with a positive price only, where the ratio is positive.
  Which candidate has the larger score may depend on the rounding of doubles; no property
  below does.
\<close>

definition scoreProduct ::
  "row \<Rightarrow> spec \<Rightarrow> feat \<Rightarrow> jsstring \<Rightarrow> int \<Rightarrow> profile \<Rightarrow> req \<Rightarrow> real" where
  "scoreProduct p sp ft useCase centerPrice prof rq =
     (let s = 0;
          s = s + (if centerPrice > 0 then
                     (let ratio = real_of_int (price p) / real_of_int centerPrice;
                          dist = \<bar>ln ratio\<bar>
                      in max 0 (12 - dist * 18) + (if ratio < 0.55 then - 2 else 0))
                   else 0);
          s = s + (if (case avoid prof of None \<Rightarrow> False | Some a \<Rightarrow> hddOnly a) \<and> hasHDD sp
                   then - 8 else 0);
          s = s + (if (case avoid prof of None \<Rightarrow> False
                       | Some a \<Rightarrow> memUnder a \<noteq> 0
                           \<and> js_lt (nullish0 (memGB sp)) (Num (memUnder a)))
                   then - 8 else 0);
          m = nullish0 (memGB sp);
          d = nullish0 (ssdGB sp);
          s = s + (if js_ge m (Num (case minSpec prof of None \<Rightarrow> 0 | Some ms \<Rightarrow> mem ms))
                   then 4 else 0);
          s = s + (if js_ge d (Num (case minSpec prof of None \<Rightarrow> 0 | Some ms \<Rightarrow> ssd ms))
                   then 3 else 0);
          s = s + (if centerPrice \<ge> num_or (Num (headroomCenter rq)) 0 then
                     (if js_ge m (Num 16) then 3 else 0) + (if js_ge d (Num 512) then 2 else 0)
                   else 0);
          s = s + (if require_gpu prof then (if hasGPU sp then 10 else - 20) else 0);
          s = s + (if require_camera prof then (if hasCamera ft then 6 else - 10) else 0);
          s = s + (if device rq \<noteq> [] \<and> device rq \<noteq> u ''any'' then
                     (if deviceType ft = device rq then 4
                      else if deviceType ft \<noteq> u ''any'' then - 3 else 0)
                   else 0);
          s = s + (if needsTenkey rq then (if hasTenkey ft then 2 else - 2) else 0);
          s = s + (if needsCamera rq then (if hasCamera ft then 2 else - 2) else 0);
          s = s + (case screen rq of
                     None \<Rightarrow> 0
                   | Some sc \<Rightarrow>
                       if sc = [] then 0
                       else if sc = u ''13-14'' then
                         (case inch ft of None \<Rightarrow> 0 | Some i \<Rightarrow> if i \<le> 14.5 then 2 else - 1)
                       else if sc = u ''15.6'' then
                         (case inch ft of None \<Rightarrow> 0 | Some i \<Rightarrow> if i \<ge> 15 then 2 else - 1)
                       else 0);
          s = s + (case cpuGen sp of
                     None \<Rightarrow> 0
                   | Some g \<Rightarrow> if js_ge g (Num 8) then 2 else if js_ge g (Num 6) then 1 else - 1)
      in s)"

section \<open>The shop assistant's comment\<close>

text \<open>The tier labels: "enough" (U+5341 U+5206), "comfortable", "headroom".\<close>

definition label_enough :: jsstring where
  "label_enough = [21313, 20998]"

definition label_comfort :: jsstring where
  "label_comfort = [24555, 36969]"

definition label_headroom :: jsstring where
  "label_headroom = [20313, 35029]"

fun join :: "jsstring \<Rightarrow> jsstring list \<Rightarrow> jsstring" where
  "join sep [] = []"
| "join sep [x] = x"
| "join sep (x # xs) = x @ sep @ join sep xs"

text \<open>The phrases are Japanese sentences, given by their code units in the order of the
  source.\<close>

definition buildReason :: "jsstring \<Rightarrow> jsstring \<Rightarrow> profile \<Rightarrow> req \<Rightarrow> jsstring" where
  "buildReason useCase bucketLabel prof rq =
     (let parts =
            (if useCase = u ''office'' then
               [[26222, 27573, 20351, 12356, 12399, 12300, 56, 71, 66, 65291, 83, 83, 68, 50, 53,
                 54, 71, 66, 12301, 12391, 21313, 20998, 12395, 12469, 12463, 12469, 12463],
                [20104, 31639, 12399, 20313, 12387, 12390, 79, 75, 12289, 36942, 21104, 12473,
                 12506, 12483, 12463, 12424, 12426, 12467, 12473, 12497, 37325, 35222, 12391,
                 36984, 23450]]
             else if useCase = u ''zoom'' then
               [[12458, 12531, 12521, 12452, 12531, 20250, 35696, 21521, 12369, 12395, 12459,
                 12513, 12521, 34920, 35352, 12434, 20778, 20808],
                [56, 71, 66, 65291, 83, 83, 68, 12391, 21205, 20316, 12398, 12418, 12383, 12388,
                 12365, 12434, 22238, 36991]]
             else if useCase = u ''creator'' then
               [[21046, 20316, 21521, 12369, 12395, 12513, 12514, 12522, 47, 83, 83, 68, 22810,
                 12417, 12434, 20778, 20808],
                [20316, 26989, 12364, 37325, 12356, 12411, 12393, 24555, 36969, 24046, 12364,
                 20986, 12420, 12377, 12356, 26528, 12391, 12377]]
             else if useCase = u ''game'' then
               [[12466, 12540, 12512, 12399, 71, 80, 85, 12364, 35201, 12289, 71, 80, 85, 35352,
                 36617, 12434, 20778, 20808],
                [12513, 12514, 12522, 49, 54, 71, 66, 20197, 19978, 12434, 20778, 20808]]
             else []);
          parts = parts @ (if device rq = u ''laptop'' then
               [[25345, 12385, 36939, 12403, 21069, 25552, 12391, 12494, 12540, 12488, 20778,
                 20808]] else []);
          parts = parts @ (if device rq = u ''desktop'' then
               [[25454, 12360, 32622, 12365, 21069, 25552, 12391, 12487, 12473, 12463, 20778,
                 20808]] else []);
          parts = parts @ (if bucketLabel = label_enough then
               [[12414, 12378, 12399, 12371, 12371, 12391, 21313, 20998, 26528]] else []);
          parts = parts @ (if bucketLabel = label_comfort then
               [[20307, 24863, 12398, 24555, 36969, 12373, 12364, 19978, 12364, 12427, 26528]]
               else []);
          parts = parts @ (if bucketLabel = label_headroom then
               [[38263, 12367, 20351, 12356, 12383, 12356, 20154, 21521, 12369, 12398, 20313,
                 35029, 26528]] else [])
      in join (u '' / '') (take 3 parts))"

section \<open>The selector\<close>

record best =
  b_p :: row
  b_sc :: real
  b_spec :: spec
  b_feat :: feat

text \<open>What a recommendation shows of the extracted attributes; "ari" (present) and
  "nashi" (absent) are the two words it uses.\<close>

definition ari :: jsstring where
  "ari = [12354, 12426]"

definition nashi :: jsstring where
  "nashi = [12394, 12375]"

record shown =
  d_cpu :: "jsstring option"
  d_memGB :: "jsnum option"
  d_ssdGB :: "jsnum option"
  d_gpu :: jsstring
  d_camera :: jsstring
  d_tenkey :: jsstring
  d_device :: jsstring
  d_inch :: "real option"

record recommendation =
  tier :: jsstring
  r_name :: jsstring
  r_price :: int
  r_url :: jsstring
  r_sku :: jsstring
  r_spec :: shown
  reason :: jsstring

text \<open>
  The loop of \<open>pickOne\<close> over the eligible rows \<open>all\<close>, with its two variables \<open>best\<close>
  and \<open>bestScore\<close> as the state. A row that lacks a required camera or GPU is skipped
  (\<open>continue\<close>) before it is scored.
\<close>

fun pick_loop ::
  "profile \<Rightarrow> jsstring \<Rightarrow> req \<Rightarrow> int \<Rightarrow> row list \<Rightarrow> best option \<times> real \<Rightarrow> best option \<times> real"
  where
  "pick_loop prof useCase rq centerPrice [] st = st"
| "pick_loop prof useCase rq centerPrice (p # ps) st =
     (let sp = parseSpec (name p @ [10] @ description p);
          ft = parseFeatures (name p)
      in if require_camera prof \<and> \<not> hasCamera ft then pick_loop prof useCase rq centerPrice ps st
         else if require_gpu prof \<and> \<not> hasGPU sp then pick_loop prof useCase rq centerPrice ps st
         else
           (let sc = scoreProduct p sp ft useCase centerPrice prof rq
            in if sc > snd st
               then pick_loop prof useCase rq centerPrice ps
                      (Some \<lparr> b_p = p, b_sc = sc, b_spec = sp, b_feat = ft \<rparr>, sc)
               else pick_loop prof useCase rq centerPrice ps st))"

definition pickOne ::
  "profile \<Rightarrow> jsstring \<Rightarrow> req \<Rightarrow> row list \<Rightarrow> int \<Rightarrow> jsstring \<Rightarrow> recommendation option" where
  "pickOne prof useCase rq all centerPrice lbl =
     (case fst (pick_loop prof useCase rq centerPrice all (None, - 1000000000)) of
        None \<Rightarrow> None
      | Some b \<Rightarrow>
          Some \<lparr> tier = lbl,
                 r_name = name (b_p b),
                 r_price = price (b_p b),
                 r_url = url (b_p b),
                 r_sku = sku (b_p b),
                 r_spec = \<lparr> d_cpu = cpu (b_spec b),
                            d_memGB = memGB (b_spec b),
                            d_ssdGB = ssdGB (b_spec b),
                            d_gpu = (if hasGPU (b_spec b) then ari else nashi),
                            d_camera = (if hasCamera (b_feat b) then ari else nashi),
                            d_tenkey = (if hasTenkey (b_feat b) then ari else nashi),
                            d_device = deviceType (b_feat b),
                            d_inch = inch (b_feat b) \<rparr>,
                 reason = buildReason useCase lbl prof rq \<rparr>)"

text \<open>The key of the deduplication: \<open>x.sku || x.url || x.name\<close>.\<close>

definition key_of :: "recommendation \<Rightarrow> jsstring" where
  "key_of x = str_or (r_sku x) (str_or (r_url x) (r_name x))"

text \<open>The loop that fills \<open>uniq\<close>, with the set \<open>seen\<close> of the keys met so far.\<close>

fun uniq_loop ::
  "recommendation option list \<Rightarrow> recommendation list \<Rightarrow> jsstring set \<Rightarrow> recommendation list"
  where
  "uniq_loop [] uniq seen = uniq"
| "uniq_loop (None # xs) uniq seen = uniq_loop xs uniq seen"
| "uniq_loop (Some x # xs) uniq seen =
     (if key_of x \<in> seen then uniq_loop xs uniq seen
      else uniq_loop xs (uniq @ [x]) (insert (key_of x) seen))"

section \<open>The request handler\<close>

text \<open>
  The body of a POST request, as the handler reads its fields. \<open>b_useCase\<close> and
  \<open>b_device\<close> are the text that \<open>String\<close> makes of the field, and \<open>None\<close> when the
  field is absent; \<open>b_budget\<close> is \<open>Number\<close> of the field, and \<open>None\<close> when the
  field is absent or \<open>null\<close>; the two flags say that the field is the boolean \<open>true\<close>;
  \<open>b_screen\<close> is the field when it is a string, and \<open>None\<close> when it is absent (a
  truthy field of another type equals neither of the two screen buckets and so counts
  like a string that names no bucket).
\<close>

record body =
  b_useCase :: "jsstring option"
  b_budget :: "jsnum option"
  b_device :: "jsstring option"
  b_needsCamera :: bool
  b_needsTenkey :: bool
  b_screen :: "jsstring option"

record meta =
  m_useCase :: jsstring
  useCaseLabel :: jsstring
  m_budgetMax :: jsnum
  m_device :: jsstring
  pricing :: centers
  m_note :: jsstring

record response =
  ok :: bool
  meta :: meta
  products :: "recommendation list"

text \<open>
  What the handler's \<open>catch\<close> turns into the answer 500 with \<open>ok: false\<close>. When
  \<open>getProfile\<close> returns a member of \<open>Object.prototype\<close>, its \<open>target\<close> is \<open>undefined\<close>
  and \<open>profile.target[key]\<close> in \<open>computeTargetBudget\<close> throws.
\<close>

datatype error = TypeError

text \<open>\<open>String(x || d)\<close> for a string field of the body.\<close>

fun field_or :: "jsstring option \<Rightarrow> jsstring \<Rightarrow> jsstring" where
  "field_or None d = d"
| "field_or (Some s) d = str_or s d"

text \<open>The rows the three scans run over: in stock, with a price, within the budget.\<close>

definition eligible :: "jsnum \<Rightarrow> row list \<Rightarrow> row list" where
  "eligible budgetMax rows =
     filter (\<lambda>p. js_le (Num (price p)) budgetMax)
       (filter (\<lambda>p. price p > 0) (filter (\<lambda>p. quantity p > 0) rows))"

definition note_office :: jsstring where
  "note_office =
     [26222, 27573, 20351, 12356, 12399, 20104, 31639, 12434, 20351, 12356, 20999, 12425, 12394,
      12367, 12390, 79, 75, 12290, 50, 19975, 20870, 21069, 24460, 12434, 20013, 24515, 12395,
      8220, 21313, 20998, 47, 24555, 36969, 47, 20313, 35029, 8221, 12391, 25552, 26696, 12375,
      12414, 12377, 12290]"

definition note_other :: jsstring where
  "note_other =
     [29992, 36884, 12395, 21512, 12431, 12379, 12390, 8220, 21313, 20998, 47, 24555, 36969, 47,
      20313, 35029, 8221, 12391, 25552, 26696, 12375, 12414, 12377, 12290]"

text \<open>The inputs of a request, each with its default.\<close>

definition useCase_of :: "body \<Rightarrow> jsstring" where
  "useCase_of b = field_or (b_useCase b) (u ''office'')"

definition budgetMax_of :: "body \<Rightarrow> jsnum" where
  "budgetMax_of b = (case b_budget b of None \<Rightarrow> Num 60000 | Some n \<Rightarrow> n)"

definition device_of :: "body \<Rightarrow> jsstring" where
  "device_of b = field_or (b_device b) (u ''any'')"

definition reqPref_of :: "body \<Rightarrow> centers \<Rightarrow> req" where
  "reqPref_of b cs =
     \<lparr> device = device_of b,
       needsCamera = b_needsCamera b,
       needsTenkey = b_needsTenkey b,
       screen = (case b_screen b of None \<Rightarrow> None | Some s \<Rightarrow> if s = [] then None else Some s),
       headroomCenter = headroom cs \<rparr>"

text \<open>The three picks of a request, in the order of the tiers: \<open>enough\<close>, \<open>comfort\<close>,
  \<open>headroom\<close>.\<close>

definition three_picks :: "body \<Rightarrow> row list \<Rightarrow> profile \<Rightarrow> recommendation option list" where
  "three_picks b rows prof =
     (let cs = computeTargetBudget prof (budgetMax_of b) (device_of b);
          reqPref = reqPref_of b cs;
          all = eligible (budgetMax_of b) rows
      in [pickOne prof (useCase_of b) reqPref all (enough cs) label_enough,
          pickOne prof (useCase_of b) reqPref all (comfort cs) label_comfort,
          pickOne prof (useCase_of b) reqPref all (headroom cs) label_headroom])"

text \<open>
  The handler on a POST request with the decoded body \<open>b\<close>, given the rows that
  \<open>readProductsFromMakeshopCsv\<close> returned.
\<close>

definition handler :: "body \<Rightarrow> row list \<Rightarrow> error + response" where
  "handler b rows =
     (case getProfile (useCase_of b) of
        Inherited k \<Rightarrow> Inl TypeError
      | Profile prof \<Rightarrow>
          Inr \<lparr> ok = True,
                meta = \<lparr> m_useCase = useCase_of b,
                         useCaseLabel = label prof,
                         m_budgetMax = budgetMax_of b,
                         m_device = device_of b,
                         pricing = computeTargetBudget prof (budgetMax_of b) (device_of b),
                         m_note = (if useCase_of b = u ''office'' then note_office
                                   else note_other) \<rparr>,
                products = uniq_loop (three_picks b rows prof) [] {} \<rparr>)"

text \<open>The condition under which the loop of \<open>pickOne\<close> does not skip a row.\<close>

definition passes_hard_filter :: "profile \<Rightarrow> row \<Rightarrow> bool" where
  "passes_hard_filter prof p =
     (\<not> (require_camera prof \<and> \<not> hasCamera (parseFeatures (name p)))
      \<and> \<not> (require_gpu prof \<and> \<not> hasGPU (parseSpec (name p @ [10] @ description p))))"


section \<open>Sample rows and requests\<close>

text \<open>Two catalog rows, one without and one with a GPU in its name; two requests with a
  ceiling of 10000, at which every tier center is 10000; and a request whose use case is a
  key of \<open>Object.prototype\<close>.\<close>

definition row_plain :: row where
  "row_plain = \<lparr> sku = u ''A1'', systemCode = u ''1'', name = u ''PC RAM 8GB'',
     description = u ''PC RAM 8GB'', price = 10000, quantity = 2,
     url = u ''https://www.alpaca-pc.com/view/item/000000000001'' \<rparr>"

definition row_gpu :: row where
  "row_gpu = \<lparr> sku = u ''G7'', systemCode = u ''7'', name = u ''PC GTX'',
     description = u ''PC GTX'', price = 10000, quantity = 1,
     url = u ''https://www.alpaca-pc.com/view/item/000000000007'' \<rparr>"

definition body_office :: body where
  "body_office = \<lparr> b_useCase = None, b_budget = Some (Num 10000), b_device = None,
     b_needsCamera = False, b_needsTenkey = False, b_screen = None \<rparr>"

definition body_game :: body where
  "body_game = \<lparr> b_useCase = Some (u ''game''), b_budget = Some (Num 10000), b_device = None,
     b_needsCamera = False, b_needsTenkey = False, b_screen = None \<rparr>"

definition body_constructor :: body where
  "body_constructor = \<lparr> b_useCase = Some (u ''constructor''), b_budget = None,
     b_device = None, b_needsCamera = False, b_needsTenkey = False, b_screen = None \<rparr>"

text \<open>The preferences the handler builds for these two requests.\<close>

definition req_plain :: req where
  "req_plain = \<lparr> device = u ''any'', needsCamera = False, needsTenkey = False,
     screen = None, headroomCenter = 10000 \<rparr>"

text \<open>What the handler answers to \<open>body_office\<close> on the catalog \<open>[row_plain]\<close>: the
  row wins every tier, under the label of the tier.\<close>

definition rec_plain :: "jsstring \<Rightarrow> recommendation" where
  "rec_plain lbl =
     \<lparr> tier = lbl, r_name = u ''PC RAM 8GB'', r_price = 10000,
       r_url = u ''https://www.alpaca-pc.com/view/item/000000000001'', r_sku = u ''A1'',
       r_spec = \<lparr> d_cpu = None, d_memGB = Some (Num 8), d_ssdGB = None, d_gpu = nashi,
                  d_camera = nashi, d_tenkey = nashi, d_device = u ''any'', d_inch = None \<rparr>,
       reason = buildReason (u ''office'') lbl office req_plain \<rparr>"

definition resp_office :: response where
  "resp_office =
     \<lparr> ok = True,
       meta = \<lparr> m_useCase = u ''office'', useCaseLabel = label office,
                m_budgetMax = Num 10000, m_device = u ''any'',
                pricing = \<lparr> c_target = 10000, enough = 10000, comfort = 10000,
                            headroom = 10000 \<rparr>,
                m_note = note_office \<rparr>,
       products = [rec_plain label_enough] \<rparr>"

text \<open>
  Two rows that have neither a product code nor a system code, so that \<open>sku\<close> and
  \<open>url\<close> are empty and only the name tells them apart; and the request with an empty
  body, for which the use case is office and the ceiling 60000.
\<close>

definition row_a :: row where
  "row_a = \<lparr> sku = [], systemCode = [], name = u ''PC RAM 8GB'',
     description = u ''PC RAM 8GB'', price = 20000, quantity = 1, url = [] \<rparr>"

definition row_b :: row where
  "row_b = \<lparr> sku = [], systemCode = [], name = u ''B RAM 8GB'',
     description = u ''B RAM 8GB'', price = 36000, quantity = 1, url = [] \<rparr>"

definition body_empty :: body where
  "body_empty = \<lparr> b_useCase = None, b_budget = None, b_device = None,
     b_needsCamera = False, b_needsTenkey = False, b_screen = None \<rparr>"

definition req_empty :: req where
  "req_empty = \<lparr> device = u ''any'', needsCamera = False, needsTenkey = False,
     screen = None, headroomCenter = 36000 \<rparr>"

definition spec_8gb :: spec where
  "spec_8gb = \<lparr> memGB = Some (Num 8), ssdGB = None, hasGPU = False, hasHDD = False,
     cpu = None, cpuGen = None \<rparr>"

definition feat_none :: feat where
  "feat_none = \<lparr> deviceType = u ''any'', hasCamera = False, hasTenkey = False,
     inch = None \<rparr>"

definition rec_of :: "row \<Rightarrow> jsstring \<Rightarrow> recommendation" where
  "rec_of p lbl =
     \<lparr> tier = lbl, r_name = name p, r_price = price p, r_url = url p, r_sku = sku p,
       r_spec = \<lparr> d_cpu = None, d_memGB = Some (Num 8), d_ssdGB = None, d_gpu = nashi,
                  d_camera = nashi, d_tenkey = nashi, d_device = u ''any'', d_inch = None \<rparr>,
       reason = buildReason (u ''office'') lbl office req_empty \<rparr>"

text \<open>The picks that are \<open>Some\<close>, in their order.\<close>

fun somes :: "'a option list \<Rightarrow> 'a list" where
  "somes [] = []"
| "somes (None # xs) = somes xs"
| "somes (Some x # xs) = x # somes xs"

section \<open>Evaluation of the extraction on concrete text\<close>

lemmas rx_eval = rx_exec_def rx_test_def star_def one_def canon_def is_digit_def is_space_def
  is_letter_def is_alpha_def is_3579_def u_def kw_memori_def

lemmas parseSpec_eval = parseSpec_def parse_memGB_def parse_ssdGB_def parse_cpu_def
  parse_cpuGen_def memRe1_def memRe2_def ssdRe1_def ssdRe2_def gpuRe_def intelRe_def ryzenRe_def
  intelPrefixRe_def intelNumRe_def js_Number_def digits_value_def toUpperCase_def Let_def

lemmas parseFeatures_eval = parseFeatures_def laptopRe_def desktopRe_def cameraRe_def inchRe_def
  kw_nooto_def kw_rettsunooto_def kw_desukutoppu_def kw_tawaa_def kw_waakusuteeshon_def
  kw_kamera_def kw_tenkii_def kw_inchi_def Let_def

lemma ssd_two_digit_terabytes: "ssdGB (parseSpec (u ''SSD 12TB'')) = Some (Num 12288)"
  by (simp add: parseSpec_eval rx_eval)

lemma ssd_gigabytes: "ssdGB (parseSpec (u ''SSD 256GB'')) = Some (Num 256)"
  by (simp add: parseSpec_eval rx_eval)

subsection \<open>What the patterns capture, on every text\<close>

text \<open>
  The storage size, when there is one, is a non-negative integer, since capture 1 of both
  storage patterns is a run of digits. The memory size is a non-negative integer when
  the pattern "keyword, then number" matches, and \<open>NaN\<close> whenever only the reversed
  pattern matches, since there capture 2 is the keyword.
\<close>

lemma rep_sound:
  "r \<in> set (rep p mn mx s) \<Longrightarrow>
   \<exists>k\<le>length s. mn \<le> k \<and> r = drop k s \<and> list_all p (take k s)"
proof (induction s arbitrary: mn mx)
  case Nil
  then show ?case by (simp split: if_splits)
next
  case (Cons c cs)
  from Cons.prems
  have "(p c \<and> r \<in> set (rep p (mn - 1) (map_option (\<lambda>m. m - 1) mx) cs))
        \<or> (mn = 0 \<and> r = c # cs)"
    by (auto split: if_splits)
  then show ?case
  proof
    assume a: "p c \<and> r \<in> set (rep p (mn - 1) (map_option (\<lambda>m. m - 1) mx) cs)"
    with Cons.IH obtain k where "k \<le> length cs" "mn - 1 \<le> k" "r = drop k cs"
      "list_all p (take k cs)"
      by blast
    with a show ?thesis by (intro exI [of _ "Suc k"]) auto
  next
    assume "mn = 0 \<and> r = c # cs"
    then show ?thesis by (intro exI [of _ 0]) simp
  qed
qed

lemma lit_rest_sound:
  "lit_rest l s = Some r \<Longrightarrow>
   length l \<le> length s \<and> r = drop (length l) s
   \<and> map canon (take (length l) s) = map canon l"
  by (induction l s rule: lit_rest.induct) (auto split: if_splits)

lemma digits_fold_nonneg:
  "0 \<le> a \<Longrightarrow> list_all is_digit d \<Longrightarrow> 0 \<le> foldl (\<lambda>a c. 10 * a + (int c - 48)) a d"
  by (induction d arbitrary: a) (auto simp: is_digit_def)

lemma js_Number_digits:
  "list_all is_digit d \<Longrightarrow> js_Number d = Num (digits_value d) \<and> 0 \<le> digits_value d"
  by (simp add: js_Number_def digits_value_def digits_fold_nonneg)

lemma rx_exec_in_match:
  "rx_exec r s = Some m \<Longrightarrow> \<exists>x\<in>set (rx_match r s Map.empty). snd m = snd x"
  by (auto simp: rx_exec_def split: list.splits)

lemma rx_search_is_exec:
  "rx_search r s = Some m \<Longrightarrow> \<exists>s'. rx_exec r s' = Some m"
  by (induction s) (auto split: option.splits)

lemma rx_search_in_match:
  "rx_search r s = Some m \<Longrightarrow> \<exists>s'. \<exists>x\<in>set (rx_match r s' Map.empty). snd m = snd x"
  using rx_search_is_exec rx_exec_in_match by blast

lemma digit_group_capture:
  assumes "x \<in> set (rx_match (Grp i (Rep is_digit mn mx)) s c)"
  shows "\<exists>d. snd x i = Some d \<and> list_all is_digit d \<and> mn \<le> length d"
proof -
  from assms obtain r where r: "r \<in> set (rep is_digit mn mx s)"
    and x: "x = (r, c(i \<mapsto> take (length s - length r) s))"
    by auto
  from rep_sound [OF r] obtain k where "k \<le> length s" "mn \<le> k" "r = drop k s"
    "list_all is_digit (take k s)" by blast
  with x show ?thesis by simp
qed

lemma rx_match_Seq:
  "x \<in> set (rx_match (Seq a b) s c) \<longleftrightarrow>
   (\<exists>y\<in>set (rx_match a s c). x \<in> set (rx_match b (fst y) (snd y)))"
  by auto

lemma rx_match_keeps:
  "x \<in> set (rx_match r s c) \<Longrightarrow> i \<notin> groups r \<Longrightarrow> snd x i = c i"
proof (induction r arbitrary: s c x)
  case (Lit l)
  then show ?case by (auto split: option.splits)
next
  case (Rep p mn mx)
  then show ?case by auto
next
  case (Seq a b)
  from Seq.prems(1) obtain y where y: "y \<in> set (rx_match a s c)"
    "x \<in> set (rx_match b (fst y) (snd y))" by auto
  from Seq.IH(2) [OF y(2)] Seq.IH(1) [OF y(1)] Seq.prems(2) show ?case by simp
next
  case (Alt a b)
  from Alt.prems(1) have "x \<in> set (rx_match a s c) \<or> x \<in> set (rx_match b s c)" by simp
  then show ?case
  proof
    assume "x \<in> set (rx_match a s c)"
    from Alt.IH(1) [OF this] Alt.prems(2) show ?thesis by simp
  next
    assume "x \<in> set (rx_match b s c)"
    from Alt.IH(2) [OF this] Alt.prems(2) show ?thesis by simp
  qed
next
  case (Grp j a)
  from Grp.prems(1) obtain y where y: "y \<in> set (rx_match a s c)"
    "x = (fst y, (snd y)(j \<mapsto> take (length s - length (fst y)) s))" by auto
  from Grp.IH [OF y(1)] Grp.prems(2) y(2) show ?case by simp
qed

lemma groups_alts: "groups (alts ls) = {}"
  by (induction ls rule: alts.induct) simp_all

lemma ssdRe1_capture:
  assumes "x \<in> set (rx_match ssdRe1 s c)"
  shows "\<exists>d. snd x 1 = Some d \<and> list_all is_digit d"
proof -
  let ?tail = "Seq (star is_space) (Grp 2 (alts [u ''GB'', u ''TB'']))"
  from assms obtain y1 y2 y3 where
    y3: "y3 \<in> set (rx_match (Grp 1 (Rep is_digit 2 (Some 4))) (fst y2) (snd y2))"
    and x: "x \<in> set (rx_match ?tail (fst y3) (snd y3))"
    unfolding ssdRe1_def rx_match_Seq by blast
  from digit_group_capture [OF y3] obtain d where d: "snd y3 1 = Some d" "list_all is_digit d"
    by blast
  have "1 \<notin> groups ?tail" by (simp add: star_def)
  from rx_match_keeps [OF x this] d show ?thesis by simp
qed

lemma ssdRe2_capture:
  assumes "x \<in> set (rx_match ssdRe2 s c)"
  shows "\<exists>d. snd x 1 = Some d \<and> list_all is_digit d"
proof -
  let ?tail = "Seq (star is_space) (Seq (Grp 2 (alts [u ''GB'', u ''TB'']))
    (Seq (Rep (\<lambda>c. \<not> is_letter c) 0 (Some 10)) (Lit (u ''SSD''))))"
  from assms obtain y where
    y: "y \<in> set (rx_match (Grp 1 (Rep is_digit 2 (Some 4))) s c)"
    and x: "x \<in> set (rx_match ?tail (fst y) (snd y))"
    unfolding ssdRe2_def rx_match_Seq by blast
  from digit_group_capture [OF y] obtain d where d: "snd y 1 = Some d" "list_all is_digit d"
    by blast
  have "1 \<notin> groups ?tail" by (simp add: star_def)
  from rx_match_keeps [OF x this] d show ?thesis by simp
qed

lemma parse_ssdGB_nonneg:
  assumes "parse_ssdGB t = Some x"
  shows "\<exists>n. x = Num n \<and> 0 \<le> n"
proof -
  from assms obtain m where
    m: "match_or (rx_search ssdRe1 t) (rx_search ssdRe2 t) = Some m"
    and x: "x = js_Number_opt (snd m 1) \<or> x = js_mul (js_Number_opt (snd m 1)) 1024"
    by (auto simp: parse_ssdGB_def Let_def split: option.splits if_splits)
  from m have "rx_search ssdRe1 t = Some m \<or> rx_search ssdRe2 t = Some m"
    by (cases "rx_search ssdRe1 t") auto
  then obtain d where d: "snd m 1 = Some d" "list_all is_digit d"
    using rx_search_in_match [of ssdRe1 t m] rx_search_in_match [of ssdRe2 t m]
      ssdRe1_capture ssdRe2_capture by metis
  from js_Number_digits [OF d(2)] d(1)
  have "js_Number_opt (snd m 1) = Num (digits_value d)" "0 \<le> digits_value d" by simp_all
  with x show ?thesis by auto
qed


lemma lit_capture_not_digits:
  assumes "map canon w = map canon l" and "l \<noteq> []" and "\<not> is_digit (canon (hd l))"
  shows "w \<noteq> [] \<and> \<not> list_all is_digit w"
proof -
  from assms(2) obtain a ls where l: "l = a # ls" by (cases l) auto
  with assms(1) obtain c0 ws where w: "w = c0 # ws" "canon c0 = canon a" by (cases w) auto
  have "\<not> is_digit c0"
  proof
    assume d: "is_digit c0"
    then have "canon c0 = c0" by (simp add: is_digit_def canon_def)
    with d w(2) l assms(3) show False by simp
  qed
  with w show ?thesis by simp
qed

lemma rx_match_Lit:
  "y \<in> set (rx_match (Lit l) s c) \<longleftrightarrow> lit_rest l s = Some (fst y) \<and> snd y = c"
  by (cases y) (auto split: option.splits)

lemma rx_match_alts3:
  "y \<in> set (rx_match (alts [a, b, d]) s c) \<Longrightarrow> \<exists>l\<in>{a, b, d}. lit_rest l s = Some (fst y)"
  by (auto simp: rx_match_Lit simp del: rx_match.simps(1))

lemma rx_match_Grp:
  "x \<in> set (rx_match (Grp i a) s c) \<longleftrightarrow>
   (\<exists>y\<in>set (rx_match a s c). x = (fst y, (snd y)(i \<mapsto> take (length s - length (fst y)) s)))"
  by auto

lemma keyword_match_capture:
  assumes "y \<in> set (rx_match (alts [kw_memori, u ''RAM'', u ''Memory'']) s c)"
  shows "take (length s - length (fst y)) s \<noteq> []
         \<and> \<not> list_all is_digit (take (length s - length (fst y)) s)"
proof -
  from rx_match_alts3 [OF assms] obtain l where l: "l \<in> {kw_memori, u ''RAM'', u ''Memory''}"
    and r: "lit_rest l s = Some (fst y)"
    by blast
  from lit_rest_sound [OF r]
  have "length l \<le> length s" "fst y = drop (length l) s"
    "map canon (take (length l) s) = map canon l" by simp_all
  moreover from this have "take (length s - length (fst y)) s = take (length l) s" by simp
  moreover from l have "l \<noteq> [] \<and> \<not> is_digit (canon (hd l))"
    by (auto simp: kw_memori_def u_def canon_def is_digit_def)
  ultimately show ?thesis using lit_capture_not_digits [of "take (length l) s" l] by simp
qed

lemma memRe1_capture:
  assumes "x \<in> set (rx_match memRe1 s c)"
  shows "\<exists>d. snd x 2 = Some d \<and> list_all is_digit d \<and> d \<noteq> []"
proof -
  let ?tail = "Seq (star is_space) (Lit (u ''GB''))"
  from assms obtain y1 y2 y3 where
    y3: "y3 \<in> set (rx_match (Grp 2 (Rep is_digit 1 (Some 3))) (fst y2) (snd y2))"
    and x: "x \<in> set (rx_match ?tail (fst y3) (snd y3))"
    unfolding memRe1_def rx_match_Seq by blast
  from digit_group_capture [OF y3] obtain d where
    d: "snd y3 2 = Some d" "list_all is_digit d" "1 \<le> length d"
    by blast
  have "2 \<notin> groups ?tail" by (simp add: star_def)
  from rx_match_keeps [OF x this] d show ?thesis by auto
qed

lemma memRe2_capture:
  assumes "x \<in> set (rx_match memRe2 s c)"
  shows "\<exists>w. snd x 2 = Some w \<and> w \<noteq> [] \<and> \<not> list_all is_digit w"
proof -
  from assms obtain y4 where
    x: "x \<in> set (rx_match (Grp 2 (alts [kw_memori, u ''RAM'', u ''Memory''])) (fst y4) (snd y4))"
    unfolding memRe2_def rx_match_Seq by blast
  then obtain y where
    y: "y \<in> set (rx_match (alts [kw_memori, u ''RAM'', u ''Memory'']) (fst y4) (snd y4))"
    and xe: "x = (fst y, (snd y)(2 \<mapsto> take (length (fst y4) - length (fst y)) (fst y4)))"
    unfolding rx_match_Grp by blast
  from keyword_match_capture [OF y] xe show ?thesis by simp
qed

lemma parse_memGB_by_order:
  assumes "parse_memGB t = Some x"
  shows "(rx_search memRe1 t \<noteq> None \<and> (\<exists>n. x = Num n \<and> 0 \<le> n))
         \<or> (rx_search memRe1 t = None \<and> rx_search memRe2 t \<noteq> None \<and> x = NaN)"
proof (cases "rx_search memRe1 t")
  case None
  with assms obtain m where m: "rx_search memRe2 t = Some m"
    and x: "x = js_Number_opt (cap_or (snd m 2) (snd m 1))"
    by (auto simp: parse_memGB_def split: option.splits)
  from rx_search_in_match [OF m] memRe2_capture obtain w where
    w: "snd m 2 = Some w" "w \<noteq> []" "\<not> list_all is_digit w" by metis
  from w(2) obtain a ws where "w = a # ws" by (cases w) auto
  with w x have "x = NaN" by (simp add: js_Number_def)
  with None m show ?thesis by simp
next
  case (Some m)
  with assms have x: "x = js_Number_opt (cap_or (snd m 2) (snd m 1))"
    by (simp add: parse_memGB_def)
  from rx_search_in_match [OF Some] memRe1_capture obtain d where
    d: "snd m 2 = Some d" "list_all is_digit d" "d \<noteq> []" by metis
  from d(3) obtain a ds where "d = a # ds" by (cases d) auto
  with d x js_Number_digits [OF d(2)] have "x = Num (digits_value d) \<and> 0 \<le> digits_value d"
    by simp
  with Some show ?thesis by auto
qed

lemma parseSpec_ssdGB_nonneg:
  "ssdGB (parseSpec text) = Some x \<Longrightarrow> \<exists>n. x = Num n \<and> 0 \<le> n"
  by (simp add: parseSpec_def Let_def parse_ssdGB_nonneg)

subsection \<open>The claims on the extraction\<close>

text \<open>
  C1: the claim has every extracted \<open>memGB\<close> and \<open>ssdGB\<close> non-negative and reads
  "2TB" beside "SSD" as 2048. The code does neither: \<open>\d{2,4}\<close> asks for two digits
  at least, so "SSD 2TB" and "2TB SSD" give no storage size at all; and for "8GB RAM"
  the memory size is \<open>NaN\<close>, which is not at least 0.
\<close>

theorem C1_two_terabytes_not_extracted:
  "ssdGB (parseSpec (u ''SSD 2TB'')) = None
   \<and> ssdGB (parseSpec (u ''2TB SSD'')) = None
   \<and> memGB (parseSpec (u ''8GB RAM'')) = Some NaN
   \<and> \<not> js_ge NaN (Num 0)"
  by (simp add: parseSpec_eval rx_eval)

text \<open>
  C2: in the reversed order (number and unit, then keyword) capture 2 is the keyword, and
  \<open>memMatch[2] || memMatch[1]\<close> hands the keyword to \<open>Number\<close>: for "16GB memori" the
  extracted \<open>memGB\<close> is \<open>NaN\<close>, not 16. In the order keyword, number it is 16.
\<close>

theorem C2_reversed_order_gives_NaN:
  "memGB (parseSpec (u ''16GB '' @ kw_memori)) = Some NaN
   \<and> memGB (parseSpec (kw_memori @ u '' 16GB'')) = Some (Num 16)"
  by (simp add: parseSpec_eval rx_eval)

section \<open>Properties of the profile table\<close>

lemma getProfile_enumerated:
  "getProfile (u ''office'') = Profile office \<and> getProfile (u ''zoom'') = Profile zoom
   \<and> getProfile (u ''creator'') = Profile creator \<and> getProfile (u ''game'') = Profile game"
  by (simp add: getProfile_def base_def u_def)

lemma getProfile_fallback:
  "useCase \<notin> {u ''office'', u ''zoom'', u ''creator'', u ''game''} \<Longrightarrow>
   useCase \<notin> set object_prototype_keys \<Longrightarrow> getProfile useCase = Profile office"
  by (simp add: getProfile_def base_def)

text \<open>
  C4: the claim has \<open>getProfile\<close> return the office profile for every identifier outside
  the four use cases. For "constructor" the lookup \<open>base[useCase]\<close> finds the function
  that \<open>base\<close> inherits from \<open>Object.prototype\<close>; it is truthy, so \<open>|| base.office\<close>
  does not apply, \<open>getProfile\<close> returns it, and the request ends in the handler's
  \<open>catch\<close>.
\<close>

theorem C4_getProfile_inherited_key:
  "getProfile (u ''constructor'') = Inherited (u ''constructor'')
   \<and> getProfile (u ''constructor'') \<noteq> Profile office
   \<and> handler body_constructor [] = Inl TypeError"
  by (simp add: getProfile_def base_def object_prototype_keys_def u_def handler_def
      useCase_of_def str_or_def body_constructor_def)

section \<open>Properties of the budget tiers\<close>

lemma baseTarget_any:
  "dev \<noteq> u ''laptop'' \<Longrightarrow> dev \<noteq> u ''desktop'' \<Longrightarrow> baseTarget prof dev = any (target prof)"
  by (simp add: baseTarget_def Let_def u_def)

lemma enough_at_least_floor:
  "10000 \<le> enough (computeTargetBudget prof budgetMax devicePref)"
  by (simp add: computeTargetBudget_def clamp_def Let_def)

lemma enough_le_comfort:
  "enough (computeTargetBudget prof budgetMax devicePref)
     \<le> comfort (computeTargetBudget prof budgetMax devicePref)"
  by (simp add: computeTargetBudget_def clamp_def Let_def)

lemma comfort_le_headroom:
  "comfort (computeTargetBudget prof budgetMax devicePref)
     \<le> headroom (computeTargetBudget prof budgetMax devicePref)"
  by (simp add: computeTargetBudget_def clamp_def Let_def)

lemma office_tiers_60000:
  "computeTargetBudget office (Num 60000) (u ''any'') =
     \<lparr> c_target = 20000, enough = 20000, comfort = 27000, headroom = 36000 \<rparr>"
  by (simp add: computeTargetBudget_def baseTarget_def office_def u_def clamp_def js_round_def
      Let_def)

lemma office_tiers_5000:
  "computeTargetBudget office (Num 5000) (u ''any'') =
     \<lparr> c_target = 5000, enough = 10000, comfort = 10000, headroom = 10000 \<rparr>"
  by (simp add: computeTargetBudget_def baseTarget_def office_def u_def clamp_def js_round_def
      Let_def)

lemma office_tiers_0:
  "computeTargetBudget office (Num 0) (u ''any'') =
     \<lparr> c_target = 20000, enough = 20000, comfort = 27000, headroom = 36000 \<rparr>"
  by (simp add: computeTargetBudget_def baseTarget_def office_def u_def clamp_def js_round_def
      Let_def)

lemma office_baseTarget_any: "baseTarget office (u ''any'') = 20000"
  by (simp add: baseTarget_def office_def u_def Let_def)

text \<open>
  C3, as stated: for every non-negative ceiling the target is the smaller of the ceiling
  and the baseline, and so never above the ceiling. This fails at the ceiling 0, which
  \<open>budgetMax || baseTarget\<close> reads as "no ceiling": the office target is then 20000.
\<close>

theorem C3_target_zero_ceiling_counterexample:
  "c_target (computeTargetBudget office (Num 0) (u ''any''))
     \<noteq> min 0 (baseTarget office (u ''any''))
   \<and> \<not> c_target (computeTargetBudget office (Num 0) (u ''any'')) \<le> 0"
  by (simp add: office_tiers_0 office_baseTarget_any)

lemma baseTarget_laptop:
  "baseTarget prof (u ''laptop'') =
     (case laptop (target prof) of Some v \<Rightarrow> v | None \<Rightarrow> any (target prof))"
  by (simp add: baseTarget_def Let_def)

lemma baseTarget_desktop:
  "baseTarget prof (u ''desktop'') =
     (case desktop (target prof) of Some v \<Rightarrow> v | None \<Rightarrow> any (target prof))"
  by (simp add: baseTarget_def Let_def u_def)

lemma office_tiers_60000_laptop:
  "computeTargetBudget office (Num 60000) (u ''laptop'') =
     \<lparr> c_target = 22000, enough = 22000, comfort = 29700, headroom = 39600 \<rparr>"
  by (simp add: computeTargetBudget_def baseTarget_laptop office_def clamp_def js_round_def
      Let_def)

lemma game_tiers_60000_desktop:
  "computeTargetBudget game (Num 60000) (u ''desktop'') =
     \<lparr> c_target = 60000, enough = 60000, comfort = 60000, headroom = 60000 \<rparr>"
  by (simp add: computeTargetBudget_def baseTarget_desktop game_def clamp_def js_round_def
      Let_def)

text \<open>
  C3, amended: for every profile, every positive integer ceiling \<open>b\<close> and every device
  preference, the target is \<open>min b baseline\<close> and does not exceed the ceiling; at the
  ceiling 0 the target is the baseline itself. The baseline is the profile's target price
  for the device preference: its \<open>laptop\<close> price for the preference \<open>laptop\<close>, its
  \<open>desktop\<close> price for \<open>desktop\<close> (the \<open>any\<close> price where the profile has no price
  under that key), and its \<open>any\<close> price for every other preference.
\<close>

theorem C3_target_is_min_for_positive_ceiling:
  "(0 < b \<longrightarrow>
      c_target (computeTargetBudget prof (Num b) dev) = min b (baseTarget prof dev)
      \<and> c_target (computeTargetBudget prof (Num b) dev) \<le> b)
   \<and> c_target (computeTargetBudget prof (Num 0) dev) = baseTarget prof dev
   \<and> (dev \<noteq> u ''laptop'' \<and> dev \<noteq> u ''desktop'' \<longrightarrow> baseTarget prof dev = any (target prof))
   \<and> baseTarget prof (u ''laptop'') =
       (case laptop (target prof) of Some v \<Rightarrow> v | None \<Rightarrow> any (target prof))
   \<and> baseTarget prof (u ''desktop'') =
       (case desktop (target prof) of Some v \<Rightarrow> v | None \<Rightarrow> any (target prof))"
  by (simp add: computeTargetBudget_def Let_def baseTarget_any baseTarget_laptop
      baseTarget_desktop)

theorem C3_target_is_min_witness:
  "(0::int) < 5000
   \<and> c_target (computeTargetBudget office (Num 5000) (u ''any'')) = min 5000 20000
   \<and> c_target (computeTargetBudget office (Num 5000) (u ''any'')) \<le> 5000
   \<and> u ''any'' \<noteq> u ''laptop'' \<and> u ''any'' \<noteq> u ''desktop''
   \<and> baseTarget office (u ''any'') = any (target office)
   \<and> any (target office) = 20000
   \<and> (0::int) < 60000
   \<and> baseTarget office (u ''laptop'') = 22000
   \<and> c_target (computeTargetBudget office (Num 60000) (u ''laptop'')) = min 60000 22000
   \<and> baseTarget game (u ''desktop'') = 65000
   \<and> c_target (computeTargetBudget game (Num 60000) (u ''desktop'')) = min 60000 65000
   \<and> c_target (computeTargetBudget game (Num 60000) (u ''desktop'')) \<le> 60000"
proof -
  note t1 = C3_target_is_min_for_positive_ceiling [of 5000 office "u ''any''"]
  note t2 = C3_target_is_min_for_positive_ceiling [of 60000 office "u ''laptop''"]
  note t3 = C3_target_is_min_for_positive_ceiling [of 60000 game "u ''desktop''"]
  have ne: "u ''any'' \<noteq> u ''laptop''" "u ''any'' \<noteq> u ''desktop''"
    by (simp_all add: u_def)
  have o: "any (target office) = 20000"
    by (simp add: office_def)
  from t1 ne have a1: "baseTarget office (u ''any'') = any (target office)"
    by blast
  from t1 have a2:
    "c_target (computeTargetBudget office (Num 5000) (u ''any''))
       = min 5000 (baseTarget office (u ''any''))"
    "c_target (computeTargetBudget office (Num 5000) (u ''any'')) \<le> 5000"
    by simp_all
  from t2 have "baseTarget office (u ''laptop'') =
      (case laptop (target office) of Some v \<Rightarrow> v | None \<Rightarrow> any (target office))"
    by blast
  also have "\<dots> = 22000"
    by (simp add: office_def)
  finally have l1: "baseTarget office (u ''laptop'') = 22000" .
  from t2 have l2:
    "c_target (computeTargetBudget office (Num 60000) (u ''laptop''))
       = min 60000 (baseTarget office (u ''laptop''))"
    by simp
  from t3 have "baseTarget game (u ''desktop'') =
      (case desktop (target game) of Some v \<Rightarrow> v | None \<Rightarrow> any (target game))"
    by blast
  also have "\<dots> = 65000"
    by (simp add: game_def)
  finally have d1: "baseTarget game (u ''desktop'') = 65000" .
  from t3 have d2:
    "c_target (computeTargetBudget game (Num 60000) (u ''desktop''))
       = min 60000 (baseTarget game (u ''desktop''))"
    "c_target (computeTargetBudget game (Num 60000) (u ''desktop'')) \<le> 60000"
    by simp_all
  from ne o a1 a2 l1 l2 d1 d2 show ?thesis
    by simp
qed

text \<open>
  C5: for every profile, every buyer ceiling (any integer, or \<open>NaN\<close>) and every device
  preference, the three tier centers are in order: enough, then comfort, then headroom.
\<close>

theorem C5_tiers_ordered:
  "enough (computeTargetBudget prof budgetMax devicePref)
     \<le> comfort (computeTargetBudget prof budgetMax devicePref)
   \<and> comfort (computeTargetBudget prof budgetMax devicePref)
     \<le> headroom (computeTargetBudget prof budgetMax devicePref)"
  by (simp add: enough_le_comfort comfort_le_headroom)

theorem C5_tiers_ordered_witness:
  "(20000::int) \<le> 27000 \<and> (27000::int) \<le> 36000
   \<and> enough (computeTargetBudget office (Num 60000) (u ''any'')) = 20000
   \<and> comfort (computeTargetBudget office (Num 60000) (u ''any'')) = 27000
   \<and> headroom (computeTargetBudget office (Num 60000) (u ''any'')) = 36000"
  using C5_tiers_ordered [of office "Num 60000" "u ''any''"]
  by (simp add: office_tiers_60000)

text \<open>
  C10: the \<open>enough\<close> center is at least 10000 for every profile, device preference and
  ceiling (truthy or not), since \<open>clamp\<close> lets its lower bound win over its upper bound;
  so for a ceiling \<open>b\<close> with \<open>0 < b < 10000\<close> all three centers are at least 10000 and
  lie strictly above the ceiling.
\<close>

theorem C10_enough_floor_exceeds_small_ceiling:
  "10000 \<le> enough (computeTargetBudget prof budgetMax dev)
   \<and> (0 < b \<and> b < 10000 \<longrightarrow>
        10000 \<le> enough (computeTargetBudget prof (Num b) dev)
        \<and> 10000 \<le> comfort (computeTargetBudget prof (Num b) dev)
        \<and> 10000 \<le> headroom (computeTargetBudget prof (Num b) dev)
        \<and> b < enough (computeTargetBudget prof (Num b) dev)
        \<and> b < comfort (computeTargetBudget prof (Num b) dev)
        \<and> b < headroom (computeTargetBudget prof (Num b) dev))"
proof -
  have e: "10000 \<le> enough (computeTargetBudget prof x dev)" for x
    by (rule enough_at_least_floor)
  have c: "10000 \<le> comfort (computeTargetBudget prof x dev)" for x
    using e [of x] enough_le_comfort [of prof x dev] by linarith
  have h: "10000 \<le> headroom (computeTargetBudget prof x dev)" for x
    using c [of x] comfort_le_headroom [of prof x dev] by linarith
  show ?thesis
    using e [of budgetMax] e [of "Num b"] c [of "Num b"] h [of "Num b"] by auto
qed

theorem C10_enough_floor_witness:
  "(0::int) < 5000 \<and> (5000::int) < 10000
   \<and> enough (computeTargetBudget office (Num 5000) (u ''any'')) = 10000
   \<and> comfort (computeTargetBudget office (Num 5000) (u ''any'')) = 10000
   \<and> headroom (computeTargetBudget office (Num 5000) (u ''any'')) = 10000
   \<and> (5000::int) < enough (computeTargetBudget office (Num 5000) (u ''any''))"
  using C10_enough_floor_exceeds_small_ceiling [of office "Num 5000" "u ''any''" 5000]
  by (simp add: office_tiers_5000)


section \<open>Properties of the selector\<close>

lemma pick_loop_filter:
  "pick_loop prof uc rq c ps st = pick_loop prof uc rq c (filter (passes_hard_filter prof) ps) st"
  by (induction ps arbitrary: st) (auto simp: passes_hard_filter_def Let_def)

lemma pick_loop_none:
  "\<forall>p\<in>set ps. \<not> passes_hard_filter prof p \<Longrightarrow> pick_loop prof uc rq c ps st = st"
  by (induction ps arbitrary: st) (auto simp: passes_hard_filter_def Let_def)

lemma pick_loop_step:
  "pick_loop prof uc rq c (p # ps) st = pick_loop prof uc rq c ps st
   \<or> (passes_hard_filter prof p
      \<and> pick_loop prof uc rq c (p # ps) st =
          pick_loop prof uc rq c ps
            (Some \<lparr> b_p = p,
                    b_sc = scoreProduct p (parseSpec (name p @ [10] @ description p))
                             (parseFeatures (name p)) uc c prof rq,
                    b_spec = parseSpec (name p @ [10] @ description p),
                    b_feat = parseFeatures (name p) \<rparr>,
             scoreProduct p (parseSpec (name p @ [10] @ description p))
               (parseFeatures (name p)) uc c prof rq))"
  by (simp add: Let_def passes_hard_filter_def)

lemma pick_loop_best:
  "fst (pick_loop prof uc rq c ps st) = Some b \<Longrightarrow>
   fst st = Some b \<or>
   (b_p b \<in> set ps \<and> passes_hard_filter prof (b_p b)
    \<and> b_spec b = parseSpec (name (b_p b) @ [10] @ description (b_p b))
    \<and> b_feat b = parseFeatures (name (b_p b)))"
proof (induction ps arbitrary: st)
  case Nil
  then show ?case by simp
next
  case (Cons p ps)
  from pick_loop_step [of prof uc rq c p ps st]
  show ?case
  proof (elim disjE conjE)
    assume "pick_loop prof uc rq c (p # ps) st = pick_loop prof uc rq c ps st"
    with Cons.prems have "fst (pick_loop prof uc rq c ps st) = Some b" by simp
    from Cons.IH [OF this] show ?thesis by auto
  next
    let ?b = "\<lparr> b_p = p,
                b_sc = scoreProduct p (parseSpec (name p @ [10] @ description p))
                         (parseFeatures (name p)) uc c prof rq,
                b_spec = parseSpec (name p @ [10] @ description p),
                b_feat = parseFeatures (name p) \<rparr>"
    let ?sc = "scoreProduct p (parseSpec (name p @ [10] @ description p))
                 (parseFeatures (name p)) uc c prof rq"
    assume pass: "passes_hard_filter prof p"
      and eq: "pick_loop prof uc rq c (p # ps) st = pick_loop prof uc rq c ps (Some ?b, ?sc)"
    from Cons.prems eq have "fst (pick_loop prof uc rq c ps (Some ?b, ?sc)) = Some b" by simp
    from Cons.IH [OF this] have "b = ?b \<or> (b_p b \<in> set ps \<and> passes_hard_filter prof (b_p b)
      \<and> b_spec b = parseSpec (name (b_p b) @ [10] @ description (b_p b))
      \<and> b_feat b = parseFeatures (name (b_p b)))" by auto
    then show ?thesis
    proof
      assume "b = ?b"
      with pass show ?thesis by simp
    next
      assume "b_p b \<in> set ps \<and> passes_hard_filter prof (b_p b)
      \<and> b_spec b = parseSpec (name (b_p b) @ [10] @ description (b_p b))
      \<and> b_feat b = parseFeatures (name (b_p b))"
      then show ?thesis by simp
    qed
  qed
qed

lemma pickOne_Some:
  assumes "pickOne prof uc rq all c lbl = Some r"
  shows "\<exists>p\<in>set all. passes_hard_filter prof p
           \<and> tier r = lbl \<and> r_name r = name p \<and> r_price r = price p
           \<and> r_url r = url p \<and> r_sku r = sku p
           \<and> d_gpu (r_spec r) =
               (if hasGPU (parseSpec (name p @ [10] @ description p)) then ari else nashi)
           \<and> d_camera (r_spec r) =
               (if hasCamera (parseFeatures (name p)) then ari else nashi)"
proof -
  from assms obtain b where
    b: "fst (pick_loop prof uc rq c all (None, - 1000000000)) = Some b"
    by (auto simp: pickOne_def split: option.splits)
  from pick_loop_best [OF b]
  have p: "b_p b \<in> set all" "passes_hard_filter prof (b_p b)"
    "b_spec b = parseSpec (name (b_p b) @ [10] @ description (b_p b))"
    "b_feat b = parseFeatures (name (b_p b))" by auto
  from assms b have "r = \<lparr> tier = lbl, r_name = name (b_p b), r_price = price (b_p b),
      r_url = url (b_p b), r_sku = sku (b_p b),
      r_spec = \<lparr> d_cpu = cpu (b_spec b), d_memGB = memGB (b_spec b), d_ssdGB = ssdGB (b_spec b),
                 d_gpu = (if hasGPU (b_spec b) then ari else nashi),
                 d_camera = (if hasCamera (b_feat b) then ari else nashi),
                 d_tenkey = (if hasTenkey (b_feat b) then ari else nashi),
                 d_device = deviceType (b_feat b), d_inch = inch (b_feat b) \<rparr>,
      reason = buildReason uc lbl prof rq \<rparr>"
    by (simp add: pickOne_def)
  with p show ?thesis by (intro bexI [of _ "b_p b"]) simp_all
qed

lemma pickOne_filter:
  "pickOne prof uc rq all c lbl = pickOne prof uc rq (filter (passes_hard_filter prof) all) c lbl"
  unfolding pickOne_def using pick_loop_filter [of prof uc rq c all] by simp

lemma pickOne_None:
  "\<forall>p\<in>set all. \<not> passes_hard_filter prof p \<Longrightarrow> pickOne prof uc rq all c lbl = None"
  by (simp add: pickOne_def pick_loop_none)

lemma sum_of_bounded_terms:
  fixes x1 :: real
  assumes "- 2 \<le> x1" "- 8 \<le> x2" "- 8 \<le> x3" "0 \<le> x4" "0 \<le> x5" "0 \<le> x6" "- 20 \<le> x7"
    "- 10 \<le> x8" "- 3 \<le> x9" "- 2 \<le> x10" "- 2 \<le> x11" "- 1 \<le> x12" "- 1 \<le> x13"
  shows "- 57 \<le> 0 + x1 + x2 + x3 + x4 + x5 + x6 + x7 + x8 + x9 + x10 + x11 + x12 + x13"
  using assms by linarith

lemma scoreProduct_lower: "- 57 \<le> scoreProduct p sp ft uc c prof rq"
  unfolding scoreProduct_def Let_def
  by (rule sum_of_bounded_terms) (auto split: option.splits)

lemma pick_loop_keeps_best:
  "fst st \<noteq> None \<Longrightarrow> fst (pick_loop prof uc rq c ps st) \<noteq> None"
  by (induction ps arbitrary: st) (auto simp: Let_def)

lemma pick_loop_finds:
  "\<exists>p\<in>set ps. passes_hard_filter prof p \<Longrightarrow> snd st < - 57 \<Longrightarrow>
   fst (pick_loop prof uc rq c ps st) \<noteq> None"
proof (induction ps arbitrary: st)
  case Nil
  then show ?case by simp
next
  case (Cons p ps)
  show ?case
  proof (cases "passes_hard_filter prof p")
    case True
    let ?sc = "scoreProduct p (parseSpec (name p @ [10] @ description p))
                 (parseFeatures (name p)) uc c prof rq"
    let ?b = "\<lparr> b_p = p, b_sc = ?sc,
                b_spec = parseSpec (name p @ [10] @ description p),
                b_feat = parseFeatures (name p) \<rparr>"
    from Cons.prems(2) scoreProduct_lower [of p _ _ uc c prof rq] have "snd st < ?sc"
      by (smt (verit))
    with True have "pick_loop prof uc rq c (p # ps) st = pick_loop prof uc rq c ps (Some ?b, ?sc)"
      by (auto simp: Let_def passes_hard_filter_def)
    moreover have "fst (pick_loop prof uc rq c ps (Some ?b, ?sc)) \<noteq> None"
      by (rule pick_loop_keeps_best) simp
    ultimately show ?thesis by simp
  next
    case False
    with Cons.prems(1) have "\<exists>p\<in>set ps. passes_hard_filter prof p" by auto
    from Cons.IH [OF this Cons.prems(2)] False show ?thesis
      by (auto simp: Let_def passes_hard_filter_def)
  qed
qed

text \<open>
  On a pool of rows with a positive price, as the handler's is, \<open>pickOne\<close> returns
  \<open>null\<close> only when no row passes the hard filter: a score is never below \<open>-57\<close>, far
  above the initial \<open>bestScore\<close>, so the first row that passes is taken.
\<close>

lemma pickOne_None_iff:
  assumes "\<forall>p\<in>set all. 0 < price p"
  shows "pickOne prof uc rq all c lbl = None \<longleftrightarrow> (\<forall>p\<in>set all. \<not> passes_hard_filter prof p)"
proof
  assume n: "pickOne prof uc rq all c lbl = None"
  show "\<forall>p\<in>set all. \<not> passes_hard_filter prof p"
  proof (rule ccontr)
    assume "\<not> (\<forall>p\<in>set all. \<not> passes_hard_filter prof p)"
    then have "\<exists>p\<in>set all. passes_hard_filter prof p" by simp
    from pick_loop_finds [OF this, of "(None, - 1000000000)" uc rq c]
    have "fst (pick_loop prof uc rq c all (None, - 1000000000)) \<noteq> None" by simp
    with n show False by (auto simp: pickOne_def split: option.splits)
  qed
next
  assume "\<forall>p\<in>set all. \<not> passes_hard_filter prof p"
  then show "pickOne prof uc rq all c lbl = None" by (rule pickOne_None)
qed

text \<open>
  C6: a recommendation that \<open>pickOne\<close> returns is for a row of the pool, and when the
  profile requires a GPU (a camera) that row has a detected GPU (camera), which the
  recommendation shows as "ari". Rows that fail the requirement are skipped before they
  are scored: the result is the same as on the pool without them. When no row passes,
  \<open>pickOne\<close> returns \<open>null\<close>.
\<close>

theorem C6_hard_filter_excludes:
  "(pickOne prof uc rq all c lbl = Some r \<longrightarrow>
      (\<exists>p\<in>set all. r_name r = name p \<and> r_price r = price p \<and> r_url r = url p
         \<and> r_sku r = sku p
         \<and> (require_gpu prof \<longrightarrow>
               hasGPU (parseSpec (name p @ [10] @ description p)) \<and> d_gpu (r_spec r) = ari)
         \<and> (require_camera prof \<longrightarrow>
               hasCamera (parseFeatures (name p)) \<and> d_camera (r_spec r) = ari)))
   \<and> pickOne prof uc rq all c lbl
       = pickOne prof uc rq (filter (passes_hard_filter prof) all) c lbl
   \<and> ((\<forall>p\<in>set all. \<not> passes_hard_filter prof p) \<longrightarrow> pickOne prof uc rq all c lbl = None)"
proof (intro conjI impI)
  assume "pickOne prof uc rq all c lbl = Some r"
  from pickOne_Some [OF this] obtain p where p: "p \<in> set all" "passes_hard_filter prof p"
    "r_name r = name p" "r_price r = price p" "r_url r = url p" "r_sku r = sku p"
    "d_gpu (r_spec r) = (if hasGPU (parseSpec (name p @ [10] @ description p)) then ari else nashi)"
    "d_camera (r_spec r) = (if hasCamera (parseFeatures (name p)) then ari else nashi)"
    by blast
  then show "\<exists>p\<in>set all. r_name r = name p \<and> r_price r = price p \<and> r_url r = url p
         \<and> r_sku r = sku p
         \<and> (require_gpu prof \<longrightarrow>
               hasGPU (parseSpec (name p @ [10] @ description p)) \<and> d_gpu (r_spec r) = ari)
         \<and> (require_camera prof \<longrightarrow>
               hasCamera (parseFeatures (name p)) \<and> d_camera (r_spec r) = ari)"
    by (intro bexI [of _ p]) (auto simp: passes_hard_filter_def)
next
  show "pickOne prof uc rq all c lbl
       = pickOne prof uc rq (filter (passes_hard_filter prof) all) c lbl"
    by (rule pickOne_filter)
next
  assume "\<forall>p\<in>set all. \<not> passes_hard_filter prof p"
  then show "pickOne prof uc rq all c lbl = None" by (rule pickOne_None)
qed


section \<open>The selector on the sample rows\<close>

lemma parseSpec_row_plain:
  "parseSpec (name row_plain @ 10 # description row_plain) =
     \<lparr> memGB = Some (Num 8), ssdGB = None, hasGPU = False, hasHDD = False, cpu = None,
       cpuGen = None \<rparr>"
  by (simp add: row_plain_def parseSpec_eval rx_eval)

lemma parseFeatures_row_plain:
  "parseFeatures (name row_plain) =
     \<lparr> deviceType = u ''any'', hasCamera = False, hasTenkey = False, inch = None \<rparr>"
  by (simp add: row_plain_def parseFeatures_eval rx_eval)

lemma parseSpec_row_gpu:
  "parseSpec (name row_gpu @ 10 # description row_gpu) =
     \<lparr> memGB = None, ssdGB = None, hasGPU = True, hasHDD = False, cpu = None,
       cpuGen = None \<rparr>"
  by (simp add: row_gpu_def parseSpec_eval rx_eval)

lemma parseFeatures_row_gpu:
  "parseFeatures (name row_gpu) =
     \<lparr> deviceType = u ''any'', hasCamera = False, hasTenkey = False, inch = None \<rparr>"
  by (simp add: row_gpu_def parseFeatures_eval rx_eval)

lemma require_gpu_game: "require_gpu game \<and> \<not> require_camera game"
  by (simp add: require_gpu_def require_camera_def game_def)

lemma require_office: "\<not> require_gpu office \<and> \<not> require_camera office"
  by (simp add: require_gpu_def require_camera_def office_def)

lemma passes_game_rows:
  "\<not> passes_hard_filter game row_plain \<and> passes_hard_filter game row_gpu"
  by (simp add: passes_hard_filter_def require_gpu_game parseSpec_row_plain parseSpec_row_gpu)

lemma tiers_at_10000:
  "computeTargetBudget office (Num 10000) (u ''any'') =
     \<lparr> c_target = 10000, enough = 10000, comfort = 10000, headroom = 10000 \<rparr>
   \<and> computeTargetBudget game (Num 10000) (u ''any'') =
     \<lparr> c_target = 10000, enough = 10000, comfort = 10000, headroom = 10000 \<rparr>"
  by (simp add: computeTargetBudget_def baseTarget_def office_def game_def u_def clamp_def
      js_round_def Let_def)

lemma score_row_gpu_game:
  "scoreProduct row_gpu
     \<lparr> memGB = None, ssdGB = None, hasGPU = True, hasHDD = False, cpu = None, cpuGen = None \<rparr>
     \<lparr> deviceType = u ''any'', hasCamera = False, hasTenkey = False, inch = None \<rparr>
     uc 10000 game req_plain = 14"
  by (simp add: scoreProduct_def Let_def row_gpu_def req_plain_def require_gpu_def
      require_camera_def game_def)

lemma score_row_plain_office:
  "scoreProduct row_plain
     \<lparr> memGB = Some (Num 8), ssdGB = None, hasGPU = False, hasHDD = False, cpu = None,
       cpuGen = None \<rparr>
     \<lparr> deviceType = u ''any'', hasCamera = False, hasTenkey = False, inch = None \<rparr>
     uc 10000 office req_plain = 16"
  by (simp add: scoreProduct_def Let_def row_plain_def req_plain_def require_gpu_def
      require_camera_def office_def)


lemma pick_loop_game_two_rows:
  "fst (pick_loop game uc req_plain 10000 [row_plain, row_gpu] (None, - 1000000000)) =
     Some \<lparr> b_p = row_gpu, b_sc = 14,
            b_spec = \<lparr> memGB = None, ssdGB = None, hasGPU = True, hasHDD = False, cpu = None,
                       cpuGen = None \<rparr>,
            b_feat = \<lparr> deviceType = u ''any'', hasCamera = False, hasTenkey = False,
                       inch = None \<rparr> \<rparr>"
  by (simp add: Let_def require_gpu_game parseSpec_row_plain parseSpec_row_gpu
      parseFeatures_row_gpu parseFeatures_row_plain score_row_gpu_game)

lemma pick_loop_office_one_row:
  "fst (pick_loop office uc req_plain 10000 [row_plain] (None, - 1000000000)) =
     Some \<lparr> b_p = row_plain, b_sc = 16,
            b_spec = \<lparr> memGB = Some (Num 8), ssdGB = None, hasGPU = False, hasHDD = False,
                       cpu = None, cpuGen = None \<rparr>,
            b_feat = \<lparr> deviceType = u ''any'', hasCamera = False, hasTenkey = False,
                       inch = None \<rparr> \<rparr>"
  by (simp add: Let_def require_office parseSpec_row_plain
      parseFeatures_row_plain score_row_plain_office)

lemma rows_differ: "name row_plain \<noteq> name row_gpu"
  by (simp add: row_plain_def row_gpu_def u_def)

theorem C6_hard_filter_witness:
  "require_gpu game
   \<and> pickOne game (u ''game'') req_plain [row_plain, row_gpu] 10000 label_enough \<noteq> None
   \<and> r_name (the (pickOne game (u ''game'') req_plain [row_plain, row_gpu] 10000 label_enough))
       = name row_gpu
   \<and> hasGPU (parseSpec (name row_gpu @ [10] @ description row_gpu))
   \<and> d_gpu (r_spec (the (pickOne game (u ''game'') req_plain [row_plain, row_gpu] 10000
                          label_enough))) = ari
   \<and> \<not> passes_hard_filter game row_plain
   \<and> pickOne game (u ''game'') req_plain [row_plain] 10000 label_enough = None"
proof -
  obtain r where some:
    "pickOne game (u ''game'') req_plain [row_plain, row_gpu] 10000 label_enough = Some r"
    by (simp add: pickOne_def pick_loop_game_two_rows del: pick_loop.simps)
  then have nm: "r_name r = name row_gpu"
    by (auto simp add: pickOne_def pick_loop_game_two_rows simp del: pick_loop.simps)
  have g: "require_gpu game"
    by (simp add: require_gpu_game)
  have none: "\<forall>p\<in>set [row_plain]. \<not> passes_hard_filter game p"
    by (simp add: passes_game_rows)
  from C6_hard_filter_excludes [of game "u ''game''" req_plain "[row_plain, row_gpu]" 10000
      label_enough r] some
  obtain p where p: "p \<in> set [row_plain, row_gpu]" "r_name r = name p"
    "require_gpu game \<longrightarrow>
       hasGPU (parseSpec (name p @ [10] @ description p)) \<and> d_gpu (r_spec r) = ari"
    by blast
  from p(1,2) nm rows_differ have "p = row_gpu" by auto
  with p(3) g have gpu: "hasGPU (parseSpec (name row_gpu @ [10] @ description row_gpu))"
    "d_gpu (r_spec r) = ari" by simp_all
  from C6_hard_filter_excludes [of game "u ''game''" req_plain "[row_plain]" 10000
      label_enough r] none
  have "pickOne game (u ''game'') req_plain [row_plain] 10000 label_enough = None"
    by blast
  with some nm g gpu none show ?thesis by simp
qed


section \<open>Properties of the handler\<close>

lemma eligible_set:
  "p \<in> set (eligible bm rows) \<Longrightarrow>
   p \<in> set rows \<and> 0 < quantity p \<and> 0 < price p \<and> js_le (Num (price p)) bm"
  by (simp add: eligible_def)

lemma uniq_loop_subset:
  "set (uniq_loop xs uniq seen) \<subseteq> set uniq \<union> {x. Some x \<in> set xs}"
  by (induction xs uniq seen rule: uniq_loop.induct) auto

lemma uniq_loop_length:
  "length (uniq_loop xs uniq seen) \<le> length uniq + length xs"
  by (induction xs uniq seen rule: uniq_loop.induct) auto

lemma uniq_loop_distinct:
  "distinct (map key_of uniq) \<Longrightarrow> key_of ` set uniq \<subseteq> seen \<Longrightarrow>
   distinct (map key_of (uniq_loop xs uniq seen))"
  by (induction xs uniq seen rule: uniq_loop.induct) auto

lemma uniq_loop_append:
  "uniq_loop xs uniq seen = uniq @ uniq_loop xs [] seen"
proof (induction xs arbitrary: uniq seen)
  case Nil
  then show ?case by simp
next
  case (Cons a xs)
  show ?case
  proof (cases a)
    case None
    with Cons [of uniq seen] show ?thesis by simp
  next
    case (Some x)
    show ?thesis
    proof (cases "key_of x \<in> seen")
      case True
      with Some Cons [of uniq seen] show ?thesis by simp
    next
      case False
      with Some Cons [of "uniq @ [x]" "insert (key_of x) seen"]
        Cons [of "[x]" "insert (key_of x) seen"]
      show ?thesis by simp
    qed
  qed
qed

lemma uniq_loop_single:
  "uniq_loop xs [x] seen = x # uniq_loop xs [] seen"
  using uniq_loop_append [of xs "[x]" seen] by simp

lemma uniq_loop_first_wins:
  "x \<in> set (uniq_loop xs [] seen) \<Longrightarrow>
   key_of x \<notin> seen \<and> find (\<lambda>y. key_of y = key_of x) (somes xs) = Some x"
proof (induction xs arbitrary: seen)
  case Nil
  then show ?case by simp
next
  case (Cons a xs)
  show ?case
  proof (cases a)
    case None
    with Cons show ?thesis by simp
  next
    case (Some y)
    show ?thesis
    proof (cases "key_of y \<in> seen")
      case True
      with Cons.prems Some have "x \<in> set (uniq_loop xs [] seen)"
        by (simp add: uniq_loop_single)
      from Cons.IH [OF this] True Some show ?thesis by auto
    next
      case False
      with Cons.prems Some
      have "x = y \<or> x \<in> set (uniq_loop xs [] (insert (key_of y) seen))"
        by (simp add: uniq_loop_single)
      then show ?thesis
      proof
        assume "x = y"
        with False Some show ?thesis by simp
      next
        assume "x \<in> set (uniq_loop xs [] (insert (key_of y) seen))"
        from Cons.IH [OF this] Some show ?thesis by auto
      qed
    qed
  qed
qed

lemma uniq_loop_covers:
  "Some x \<in> set xs \<Longrightarrow> key_of x \<in> seen \<union> key_of ` set (uniq_loop xs [] seen)"
proof (induction xs arbitrary: seen)
  case Nil
  then show ?case by simp
next
  case (Cons a xs)
  show ?case
  proof (cases a)
    case None
    with Cons show ?thesis by simp
  next
    case (Some y)
    show ?thesis
    proof (cases "Some x \<in> set xs")
      case True
      from Cons.IH [OF True, of seen] Cons.IH [OF True, of "insert (key_of y) seen"] Some
      show ?thesis by (auto simp: uniq_loop_single)
    next
      case False
      with Cons.prems Some have "x = y" by simp
      with Some show ?thesis by (auto simp: uniq_loop_single)
    qed
  qed
qed

lemma handler_Profile:
  "getProfile (useCase_of b) = Profile prof \<Longrightarrow>
   handler b rows = Inr resp \<Longrightarrow>
   ok resp \<and> products resp = uniq_loop (three_picks b rows prof) [] {}
   \<and> pricing (meta resp) = computeTargetBudget prof (budgetMax_of b) (device_of b)"
  by (auto simp: handler_def)

lemma handler_Inr:
  "handler b rows = Inr resp \<Longrightarrow> \<exists>prof. getProfile (useCase_of b) = Profile prof"
  by (cases "getProfile (useCase_of b)") (auto simp: handler_def)

lemma handler_succeeds:
  "getProfile (useCase_of b) = Profile prof \<Longrightarrow> \<exists>resp. handler b rows = Inr resp"
  by (simp add: handler_def)

lemma three_picks_Some:
  "Some x \<in> set (three_picks b rows prof) \<Longrightarrow>
   \<exists>rq c lbl. pickOne prof (useCase_of b) rq (eligible (budgetMax_of b) rows) c lbl = Some x"
  by (simp add: three_picks_def Let_def) metis

lemma three_picks_length: "length (three_picks b rows prof) = 3"
  by (simp add: three_picks_def Let_def)

lemma three_picks_first_tier:
  "three_picks b rows prof = Some e # rest \<Longrightarrow> tier e = label_enough"
proof -
  assume a: "three_picks b rows prof = Some e # rest"
  then obtain rq c where
    "pickOne prof (useCase_of b) rq (eligible (budgetMax_of b) rows) c label_enough = Some e"
    by (auto simp: three_picks_def Let_def)
  from pickOne_Some [OF this] show ?thesis by blast
qed

text \<open>
  C7: every recommendation of a successful response is for a row of the catalog that is
  in stock (\<open>quantity > 0\<close>), has a positive price and costs at most the ceiling
  \<open>budgetMax\<close>; so the price it shows is positive and within the ceiling.
\<close>

theorem C7_recommendations_are_eligible:
  assumes "handler b rows = Inr resp" and "x \<in> set (products resp)"
  shows "(\<exists>p\<in>set rows. r_name x = name p \<and> r_price x = price p \<and> r_url x = url p
            \<and> r_sku x = sku p \<and> 0 < quantity p \<and> 0 < price p
            \<and> js_le (Num (price p)) (budgetMax_of b))
         \<and> 0 < r_price x \<and> js_le (Num (r_price x)) (budgetMax_of b)"
proof -
  from handler_Inr [OF assms(1)] obtain prof where
    prof: "getProfile (useCase_of b) = Profile prof" ..
  from handler_Profile [OF prof assms(1)]
  have "products resp = uniq_loop (three_picks b rows prof) [] {}" by simp
  with assms(2) uniq_loop_subset [of "three_picks b rows prof" "[]" "{}"]
  have "Some x \<in> set (three_picks b rows prof)" by auto
  from three_picks_Some [OF this] obtain rq c lbl where
    "pickOne prof (useCase_of b) rq (eligible (budgetMax_of b) rows) c lbl = Some x" by blast
  from pickOne_Some [OF this] obtain p where
    p: "p \<in> set (eligible (budgetMax_of b) rows)" "r_name x = name p" "r_price x = price p"
       "r_url x = url p" "r_sku x = sku p" by blast
  from eligible_set [OF p(1)]
  have e: "p \<in> set rows" "0 < quantity p" "0 < price p" "js_le (Num (price p)) (budgetMax_of b)"
    by simp_all
  from p e show ?thesis by auto
qed

lemma key_of_sku_url_name:
  "key_of x = (if r_sku x \<noteq> [] then r_sku x else if r_url x \<noteq> [] then r_url x else r_name x)"
  by (simp add: key_of_def str_or_def)

text \<open>
  C8: the final list is the three picks deduplicated in the order of the tiers by the key
  of a pick, which is its sku if that is not empty, else its URL if that is not empty,
  else its name. The list has at most three entries, no two with the same key; each
  entry is the first pick that has its key (a later pick with a key already met is
  dropped), and every pick's key is the key of an entry. When all three tiers pick a
  product with one and the same key, the list is the single pick of the first tier, which
  carries the label "enough".
\<close>

theorem C8_final_list_deduplicated:
  assumes "getProfile (useCase_of b) = Profile prof" and "handler b rows = Inr resp"
  shows "length (products resp) \<le> 3
         \<and> distinct (map key_of (products resp))
         \<and> (\<forall>x\<in>set (products resp).
               find (\<lambda>y. key_of y = key_of x) (somes (three_picks b rows prof)) = Some x)
         \<and> (\<forall>x. Some x \<in> set (three_picks b rows prof) \<longrightarrow>
               key_of x \<in> key_of ` set (products resp))
         \<and> (\<forall>e c h. three_picks b rows prof = [Some e, Some c, Some h]
               \<and> key_of c = key_of e \<and> key_of h = key_of e \<longrightarrow>
               products resp = [e] \<and> tier e = label_enough)
         \<and> (\<forall>x. key_of x =
               (if r_sku x \<noteq> [] then r_sku x else if r_url x \<noteq> [] then r_url x
                else r_name x))
         \<and> distinct (map (\<lambda>x. if r_sku x \<noteq> [] then r_sku x
                                else if r_url x \<noteq> [] then r_url x else r_name x)
                          (products resp))"
proof -
  from handler_Profile [OF assms]
  have pr: "products resp = uniq_loop (three_picks b rows prof) [] {}" by simp
  have 1: "length (products resp) \<le> 3"
    using uniq_loop_length [of "three_picks b rows prof" "[]" "{}"]
    by (simp add: pr three_picks_length)
  have 2: "distinct (map key_of (products resp))"
    unfolding pr by (rule uniq_loop_distinct) simp_all
  have 3: "\<forall>x\<in>set (products resp).
             find (\<lambda>y. key_of y = key_of x) (somes (three_picks b rows prof)) = Some x"
    unfolding pr using uniq_loop_first_wins by blast
  have 4: "\<forall>x. Some x \<in> set (three_picks b rows prof) \<longrightarrow>
             key_of x \<in> key_of ` set (products resp)"
    unfolding pr using uniq_loop_covers [of _ "three_picks b rows prof" "{}"] by simp
  have 5: "\<forall>e c h. three_picks b rows prof = [Some e, Some c, Some h]
             \<and> key_of c = key_of e \<and> key_of h = key_of e \<longrightarrow>
             products resp = [e] \<and> tier e = label_enough"
  proof (intro allI impI)
    fix e c h
    assume a: "three_picks b rows prof = [Some e, Some c, Some h]
                 \<and> key_of c = key_of e \<and> key_of h = key_of e"
    then have "products resp = [e]" by (simp add: pr)
    moreover from a three_picks_first_tier [of b rows prof e "[Some c, Some h]"]
    have "tier e = label_enough" by simp
    ultimately show "products resp = [e] \<and> tier e = label_enough" ..
  qed
  have 6: "\<forall>x. key_of x =
             (if r_sku x \<noteq> [] then r_sku x else if r_url x \<noteq> [] then r_url x
              else r_name x)"
    using key_of_sku_url_name by blast
  have "key_of = (\<lambda>x. if r_sku x \<noteq> [] then r_sku x
                        else if r_url x \<noteq> [] then r_url x else r_name x)"
    by (rule ext) (rule key_of_sku_url_name)
  with 2 have 7: "distinct (map (\<lambda>x. if r_sku x \<noteq> [] then r_sku x
                                else if r_url x \<noteq> [] then r_url x else r_name x)
                             (products resp))"
    by simp
  from 1 2 3 4 5 6 7 show ?thesis by blast
qed

text \<open>
  C9: for a use case that has a profile the handler answers with success. The final list
  holds picks of the tiers only, so a tier that yields \<open>null\<close> is absent from it; when
  all three tiers yield \<open>null\<close> the list is empty and \<open>ok\<close> is still true. That is
  the case whenever no eligible row passes the hard filter, as for \<open>game\<close> on a catalog
  with no GPU within the budget.
\<close>

theorem C9_empty_tiers_are_success:
  assumes "getProfile (useCase_of b) = Profile prof"
  shows "\<exists>resp. handler b rows = Inr resp \<and> ok resp
           \<and> (\<forall>x\<in>set (products resp). Some x \<in> set (three_picks b rows prof))
           \<and> (three_picks b rows prof = [None, None, None] \<longrightarrow> products resp = [])
           \<and> ((\<forall>p\<in>set (eligible (budgetMax_of b) rows). \<not> passes_hard_filter prof p) \<longrightarrow>
                 three_picks b rows prof = [None, None, None])"
proof -
  from handler_succeeds [OF assms] obtain resp where r: "handler b rows = Inr resp" ..
  from handler_Profile [OF assms r]
  have okr: "ok resp" and pr: "products resp = uniq_loop (three_picks b rows prof) [] {}"
    by simp_all
  have a: "\<forall>x\<in>set (products resp). Some x \<in> set (three_picks b rows prof)"
    unfolding pr using uniq_loop_subset [of "three_picks b rows prof" "[]" "{}"] by auto
  have c: "three_picks b rows prof = [None, None, None] \<longrightarrow> products resp = []"
    by (simp add: pr)
  have d: "(\<forall>p\<in>set (eligible (budgetMax_of b) rows). \<not> passes_hard_filter prof p) \<longrightarrow>
             three_picks b rows prof = [None, None, None]"
    by (simp add: three_picks_def Let_def pickOne_None)
  from r okr a c d show ?thesis by blast
qed


section \<open>The handler on the sample requests\<close>

lemma request_office:
  "useCase_of body_office = u ''office'' \<and> budgetMax_of body_office = Num 10000
   \<and> device_of body_office = u ''any''"
  by (simp add: useCase_of_def budgetMax_of_def device_of_def body_office_def)

lemma request_game:
  "useCase_of body_game = u ''game'' \<and> budgetMax_of body_game = Num 10000
   \<and> device_of body_game = u ''any''"
  by (simp add: useCase_of_def budgetMax_of_def device_of_def body_game_def str_or_def u_def)

lemma reqPref_office:
  "reqPref_of body_office
     \<lparr> c_target = 10000, enough = 10000, comfort = 10000, headroom = 10000 \<rparr> = req_plain"
  by (simp add: reqPref_of_def req_plain_def request_office) (simp add: body_office_def)

lemma eligible_row_plain: "eligible (Num 10000) [row_plain] = [row_plain]"
  by (simp add: eligible_def row_plain_def)

lemma pickOne_office_row_plain:
  "pickOne office (u ''office'') req_plain [row_plain] 10000 lbl = Some (rec_plain lbl)"
  unfolding pickOne_def pick_loop_office_one_row
  by (simp add: rec_plain_def row_plain_def)

lemma three_picks_office:
  "three_picks body_office [row_plain] office =
     [Some (rec_plain label_enough), Some (rec_plain label_comfort),
      Some (rec_plain label_headroom)]"
  by (simp add: three_picks_def Let_def request_office tiers_at_10000 reqPref_office
      eligible_row_plain pickOne_office_row_plain)

lemma key_rec_plain: "key_of (rec_plain lbl) = u ''A1''"
  by (simp add: key_of_def rec_plain_def str_or_def u_def)

lemma getProfile_body_office: "getProfile (useCase_of body_office) = Profile office"
  by (simp add: request_office getProfile_enumerated)

lemma getProfile_body_game: "getProfile (useCase_of body_game) = Profile game"
  by (simp add: request_game getProfile_enumerated)

lemma handler_office: "handler body_office [row_plain] = Inr resp_office"
  unfolding handler_def getProfile_body_office
  by (simp add: three_picks_office key_rec_plain resp_office_def request_office
      tiers_at_10000)

lemma not_eligible_passes_game: "\<not> passes_hard_filter game row_plain"
  by (simp add: passes_game_rows)

theorem C7_recommendations_witness:
  "handler body_office [row_plain] = Inr resp_office
   \<and> rec_plain label_enough \<in> set (products resp_office)
   \<and> r_name (rec_plain label_enough) = name row_plain
   \<and> r_price (rec_plain label_enough) = price row_plain
   \<and> 0 < quantity row_plain
   \<and> 0 < r_price (rec_plain label_enough)
   \<and> js_le (Num (r_price (rec_plain label_enough))) (budgetMax_of body_office)"
proof -
  have h: "handler body_office [row_plain] = Inr resp_office"
    by (rule handler_office)
  have m: "rec_plain label_enough \<in> set (products resp_office)"
    by (simp add: resp_office_def)
  from C7_recommendations_are_eligible [OF h m]
  have "0 < r_price (rec_plain label_enough)
        \<and> js_le (Num (r_price (rec_plain label_enough))) (budgetMax_of body_office)"
    by blast
  with h m show ?thesis
    by (simp add: rec_plain_def row_plain_def)
qed

theorem C9_empty_tiers_witness:
  "getProfile (useCase_of body_game) = Profile game
   \<and> eligible (budgetMax_of body_game) [row_plain] = [row_plain]
   \<and> \<not> passes_hard_filter game row_plain
   \<and> three_picks body_game [row_plain] game = [None, None, None]
   \<and> (\<exists>resp. handler body_game [row_plain] = Inr resp \<and> ok resp \<and> products resp = [])"
proof -
  have e: "eligible (budgetMax_of body_game) [row_plain] = [row_plain]"
    by (simp add: request_game eligible_row_plain)
  then have n: "\<forall>p\<in>set (eligible (budgetMax_of body_game) [row_plain]).
                 \<not> passes_hard_filter game p"
    by (simp add: not_eligible_passes_game)
  from C9_empty_tiers_are_success [OF getProfile_body_game, of "[row_plain]"] n
  obtain resp where "handler body_game [row_plain] = Inr resp" "ok resp"
    "three_picks body_game [row_plain] game = [None, None, None]" "products resp = []"
    by blast
  with getProfile_body_game e not_eligible_passes_game show ?thesis
    by blast
qed


section \<open>The handler on a catalog without product codes\<close>

lemma parseSpec_row_a: "parseSpec (name row_a @ 10 # description row_a) = spec_8gb"
  using parseSpec_row_plain by (simp add: row_a_def row_plain_def spec_8gb_def)

lemma parseFeatures_row_a: "parseFeatures (name row_a) = feat_none"
  using parseFeatures_row_plain by (simp add: row_a_def row_plain_def feat_none_def)

lemma parseSpec_row_b: "parseSpec (name row_b @ 10 # description row_b) = spec_8gb"
  by (simp add: row_b_def spec_8gb_def parseSpec_eval rx_eval)

lemma parseFeatures_row_b: "parseFeatures (name row_b) = feat_none"
  by (simp add: row_b_def feat_none_def parseFeatures_eval rx_eval)

lemma score_office_8gb:
  "0 < c \<Longrightarrow>
   scoreProduct p spec_8gb feat_none uc c office req_empty =
     max 0 (12 - \<bar>ln (real_of_int (price p) / real_of_int c)\<bar> * 18)
     + (if real_of_int (price p) / real_of_int c < 0.55 then - 2 else 0) + 4"
  by (simp add: scoreProduct_def Let_def spec_8gb_def feat_none_def req_empty_def
      require_gpu_def require_camera_def office_def)


lemma ln_facts:
  "0 < ln (9 / 5 :: real)" "ln (5 / 9 :: real) < 0" "ln (20 / 27 :: real) = - ln (27 / 20)"
  "0 < ln (4 / 3 :: real)" "ln (4 / 3 :: real) < ln (27 / 20)" "ln (4 / 3 :: real) \<le> 1 / 3"
proof -
  show "0 < ln (9 / 5 :: real)" by simp
  show "ln (5 / 9 :: real) < 0" by simp
  show "ln (20 / 27 :: real) = - ln (27 / 20)"
    using ln_inverse [of "27 / 20 :: real"] by simp
  show "0 < ln (4 / 3 :: real)" by simp
  show "ln (4 / 3 :: real) < ln (27 / 20)" by simp
  show "ln (4 / 3 :: real) \<le> 1 / 3"
    using ln_le_minus_one [of "4 / 3 :: real"] by simp
qed

lemma scores_enough:
  "scoreProduct row_a spec_8gb feat_none uc 20000 office req_empty = 16"
  "scoreProduct row_b spec_8gb feat_none uc 20000 office req_empty \<le> 16"
  using ln_facts by (simp_all add: score_office_8gb row_a_def row_b_def)

lemma scores_headroom:
  "scoreProduct row_b spec_8gb feat_none uc 36000 office req_empty = 16"
  "scoreProduct row_a spec_8gb feat_none uc 36000 office req_empty < 16"
  using ln_facts by (simp_all add: score_office_8gb row_a_def row_b_def)

lemma scores_comfort:
  "scoreProduct row_a spec_8gb feat_none uc 27000 office req_empty
     < scoreProduct row_b spec_8gb feat_none uc 27000 office req_empty"
  using ln_facts by (simp add: score_office_8gb row_a_def row_b_def)


lemma pick_loop_two_rows_office:
  "fst (pick_loop office uc req_empty c [row_a, row_b] (None, - 1000000000)) =
     Some (if scoreProduct row_a spec_8gb feat_none uc c office req_empty
                < scoreProduct row_b spec_8gb feat_none uc c office req_empty
           then \<lparr> b_p = row_b,
                  b_sc = scoreProduct row_b spec_8gb feat_none uc c office req_empty,
                  b_spec = spec_8gb, b_feat = feat_none \<rparr>
           else \<lparr> b_p = row_a,
                  b_sc = scoreProduct row_a spec_8gb feat_none uc c office req_empty,
                  b_spec = spec_8gb, b_feat = feat_none \<rparr>)"
proof -
  have "- 1000000000 < scoreProduct row_a spec_8gb feat_none uc c office req_empty"
    using scoreProduct_lower [of row_a spec_8gb feat_none uc c office req_empty] by linarith
  then show ?thesis
    by (simp add: Let_def require_office parseSpec_row_a parseFeatures_row_a parseSpec_row_b
        parseFeatures_row_b)
qed

lemma rec_of_best:
  "\<lparr> tier = lbl, r_name = name p, r_price = price p, r_url = url p, r_sku = sku p,
     r_spec = \<lparr> d_cpu = cpu spec_8gb, d_memGB = memGB spec_8gb, d_ssdGB = ssdGB spec_8gb,
                d_gpu = (if hasGPU spec_8gb then ari else nashi),
                d_camera = (if hasCamera feat_none then ari else nashi),
                d_tenkey = (if hasTenkey feat_none then ari else nashi),
                d_device = deviceType feat_none, d_inch = inch feat_none \<rparr>,
     reason = buildReason (u ''office'') lbl office req_empty \<rparr> = rec_of p lbl"
  by (simp add: rec_of_def spec_8gb_def feat_none_def)

lemma pickOne_two_rows_enough:
  "pickOne office (u ''office'') req_empty [row_a, row_b] 20000 lbl = Some (rec_of row_a lbl)"
  unfolding pickOne_def pick_loop_two_rows_office
  using scores_enough [of "u ''office''"] by (simp add: rec_of_best)

lemma pickOne_two_rows_comfort:
  "pickOne office (u ''office'') req_empty [row_a, row_b] 27000 lbl = Some (rec_of row_b lbl)"
  unfolding pickOne_def pick_loop_two_rows_office
  using scores_comfort [of "u ''office''"] by (simp add: rec_of_best)

lemma pickOne_two_rows_headroom:
  "pickOne office (u ''office'') req_empty [row_a, row_b] 36000 lbl = Some (rec_of row_b lbl)"
  unfolding pickOne_def pick_loop_two_rows_office
  using scores_headroom [of "u ''office''"] by (simp add: rec_of_best)

lemma request_empty:
  "useCase_of body_empty = u ''office'' \<and> budgetMax_of body_empty = Num 60000
   \<and> device_of body_empty = u ''any''"
  by (simp add: useCase_of_def budgetMax_of_def device_of_def body_empty_def)

lemma reqPref_empty:
  "reqPref_of body_empty
     \<lparr> c_target = 20000, enough = 20000, comfort = 27000, headroom = 36000 \<rparr> = req_empty"
  by (simp add: reqPref_of_def req_empty_def request_empty) (simp add: body_empty_def)

lemma eligible_two_rows: "eligible (Num 60000) [row_a, row_b] = [row_a, row_b]"
  by (simp add: eligible_def row_a_def row_b_def)

lemma three_picks_two_rows:
  "three_picks body_empty [row_a, row_b] office =
     [Some (rec_of row_a label_enough), Some (rec_of row_b label_comfort),
      Some (rec_of row_b label_headroom)]"
  by (simp add: three_picks_def Let_def request_empty office_tiers_60000 reqPref_empty
      eligible_two_rows pickOne_two_rows_enough pickOne_two_rows_comfort
      pickOne_two_rows_headroom)

lemma getProfile_body_empty: "getProfile (useCase_of body_empty) = Profile office"
  by (simp add: request_empty getProfile_enumerated)

lemma rec_of_fields:
  "r_sku (rec_of p lbl) = sku p \<and> r_url (rec_of p lbl) = url p
   \<and> r_name (rec_of p lbl) = name p \<and> tier (rec_of p lbl) = lbl"
  by (simp add: rec_of_def)

lemma rows_ab:
  "sku row_a = [] \<and> url row_a = [] \<and> sku row_b = [] \<and> url row_b = []
   \<and> name row_a \<noteq> name row_b"
  by (simp add: row_a_def row_b_def u_def)


theorem C8_final_list_witness:
  "getProfile (useCase_of body_office) = Profile office
   \<and> handler body_office [row_plain] = Inr resp_office
   \<and> three_picks body_office [row_plain] office =
       [Some (rec_plain label_enough), Some (rec_plain label_comfort),
        Some (rec_plain label_headroom)]
   \<and> key_of (rec_plain label_comfort) = key_of (rec_plain label_enough)
   \<and> key_of (rec_plain label_headroom) = key_of (rec_plain label_enough)
   \<and> products resp_office = [rec_plain label_enough]
   \<and> tier (rec_plain label_enough) = label_enough
   \<and> length (products resp_office) \<le> 3
   \<and> distinct (map key_of (products resp_office))
   \<and> r_sku (rec_plain label_enough) \<noteq> []
   \<and> key_of (rec_plain label_enough) = r_sku (rec_plain label_enough)
   \<and> r_url (rec_plain label_enough) \<noteq> []
   \<and> key_of ((rec_plain label_enough)\<lparr>r_sku := []\<rparr>) = r_url (rec_plain label_enough)
   \<and> getProfile (useCase_of body_empty) = Profile office
   \<and> three_picks body_empty [row_a, row_b] office =
       [Some (rec_of row_a label_enough), Some (rec_of row_b label_comfort),
        Some (rec_of row_b label_headroom)]
   \<and> r_sku (rec_of row_a label_enough) = [] \<and> r_url (rec_of row_a label_enough) = []
   \<and> r_sku (rec_of row_b label_comfort) = [] \<and> r_url (rec_of row_b label_comfort) = []
   \<and> key_of (rec_of row_a label_enough) = name row_a
   \<and> key_of (rec_of row_b label_comfort) = name row_b
   \<and> key_of (rec_of row_b label_headroom) = name row_b
   \<and> name row_a \<noteq> name row_b
   \<and> (\<exists>resp. handler body_empty [row_a, row_b] = Inr resp
         \<and> products resp = [rec_of row_a label_enough, rec_of row_b label_comfort]
         \<and> distinct (map key_of (products resp)))"
proof -
  note t1 = C8_final_list_deduplicated [OF getProfile_body_office handler_office]
  have k: "key_of (rec_plain label_comfort) = key_of (rec_plain label_enough)"
    "key_of (rec_plain label_headroom) = key_of (rec_plain label_enough)"
    by (simp_all add: key_rec_plain)
  from t1
  have "length (products resp_office) \<le> 3" "distinct (map key_of (products resp_office))"
    "\<forall>e c h. three_picks body_office [row_plain] office = [Some e, Some c, Some h]
               \<and> key_of c = key_of e \<and> key_of h = key_of e \<longrightarrow>
               products resp_office = [e] \<and> tier e = label_enough"
    by blast+
  with three_picks_office k
  have one: "length (products resp_office) \<le> 3"
    "distinct (map key_of (products resp_office))"
    "products resp_office = [rec_plain label_enough]"
    "tier (rec_plain label_enough) = label_enough"
    by blast+
  from t1 have key: "key_of x =
      (if r_sku x \<noteq> [] then r_sku x else if r_url x \<noteq> [] then r_url x else r_name x)" for x
    by blast
  have f: "r_sku (rec_plain label_enough) \<noteq> []" "r_url (rec_plain label_enough) \<noteq> []"
    by (simp_all add: rec_plain_def u_def)
  have k1: "key_of (rec_plain label_enough) = r_sku (rec_plain label_enough)"
    using key [of "rec_plain label_enough"] f by simp
  have k2: "key_of ((rec_plain label_enough)\<lparr>r_sku := []\<rparr>) = r_url (rec_plain label_enough)"
    using key [of "(rec_plain label_enough)\<lparr>r_sku := []\<rparr>"] f by simp
  obtain resp where h: "handler body_empty [row_a, row_b] = Inr resp"
    using handler_succeeds [OF getProfile_body_empty] by blast
  note t2 = C8_final_list_deduplicated [OF getProfile_body_empty h]
  have e: "r_sku (rec_of row_a label_enough) = []" "r_url (rec_of row_a label_enough) = []"
    "r_sku (rec_of row_b label_comfort) = []" "r_url (rec_of row_b label_comfort) = []"
    "name row_a \<noteq> name row_b"
    by (simp_all add: rec_of_fields rows_ab)
  have ka: "key_of (rec_of row_a lbl) = name row_a" for lbl
    using key [of "rec_of row_a lbl"] by (simp add: rec_of_fields rows_ab)
  have kb: "key_of (rec_of row_b lbl) = name row_b" for lbl
    using key [of "rec_of row_b lbl"] by (simp add: rec_of_fields rows_ab)
  from handler_Profile [OF getProfile_body_empty h]
  have "products resp = uniq_loop (three_picks body_empty [row_a, row_b] office) [] {}"
    by simp
  then have p: "products resp = [rec_of row_a label_enough, rec_of row_b label_comfort]"
    using e(5) by (simp add: three_picks_two_rows ka kb uniq_loop_single)
  from t2 have d: "distinct (map key_of (products resp))" by blast
  from h p d
  have ex: "\<exists>resp. handler body_empty [row_a, row_b] = Inr resp
         \<and> products resp = [rec_of row_a label_enough, rec_of row_b label_comfort]
         \<and> distinct (map key_of (products resp))"
    by blast
  from getProfile_body_office handler_office three_picks_office k one f k1 k2
    getProfile_body_empty three_picks_two_rows e ka kb ex
  show ?thesis by blast
qed

end
